theory Spec2Isabelle
  imports Main "HOL-Library.Sublist"
begin

section \<open>JavaScript values and library objects\<close>

text \<open>
  The primitive JavaScript values the verification service handles. Strict equality
  (\<open>===\<close>) on these values is HOL equality.
\<close>

datatype jsval = JUndefined | JNull | JBool bool | JStr string

datatype exn = TypeError string | LibraryError

datatype 'a promise = Resolved 'a | Rejected exn

text \<open>
  \<open>String.prototype.indexOf\<close> searches for a substring, \<open>Array.prototype.indexOf\<close> for an
  element that is strictly equal; both return \<open>-1\<close> when there is none.
\<close>

fun string_indexOf_from :: "nat \<Rightarrow> string \<Rightarrow> string \<Rightarrow> int" where
  "string_indexOf_from i [] v = (if v = [] then int i else - 1)"
| "string_indexOf_from i (c # s) v =
     (if prefix v (c # s) then int i else string_indexOf_from (Suc i) s v)"

definition string_indexOf :: "string \<Rightarrow> string \<Rightarrow> int" where
  "string_indexOf s v = string_indexOf_from 0 s v"

fun array_indexOf_from :: "nat \<Rightarrow> jsval list \<Rightarrow> jsval \<Rightarrow> int" where
  "array_indexOf_from i [] v = - 1"
| "array_indexOf_from i (x # xs) v = (if x = v then int i else array_indexOf_from (Suc i) xs v)"

definition array_indexOf :: "string list \<Rightarrow> jsval \<Rightarrow> int" where
  "array_indexOf xs v = array_indexOf_from 0 (map JStr xs) v"

text \<open>
  A property that holds a string when it is present: an absent one reads as \<open>undefined\<close>.
\<close>

definition optionalString :: "string option \<Rightarrow> jsval" where
  "optionalString v = (case v of None \<Rightarrow> JUndefined | Some s \<Rightarrow> JStr s)"

definition getProperty :: "(string \<rightharpoonup> string) \<Rightarrow> string \<Rightarrow> jsval" where
  "getProperty m k = optionalString (m k)"

subsection \<open>The parsed MIME message (emailjs-mime-parser)\<close>

record mailbox =
  mb_name :: string
  address :: "string option"

record headerEntry =
  hvalue :: "mailbox list"

record contentType =
  ctvalue :: string
  params :: "(string \<rightharpoonup> string) option"

datatype mimeNode = MimeNode
  (contentType: "contentType option")
  (childNodes: "mimeNode list option")
  (headers: "string \<rightharpoonup> headerEntry list")
  (raw: string)
  (content: string)

record mimeParser =
  node :: mimeNode
  nodes :: "string \<rightharpoonup> mimeNode"

definition getNode :: "mimeParser \<Rightarrow> string \<Rightarrow> mimeNode option" where
  "getNode parser path = nodes parser (''node'' @ path)"

subsection \<open>The decoded CMS structure (asn1js, pkijs)\<close>

text \<open>
  An attribute of a distinguished name: its type and \<open>value.valueBlock.value\<close>, which is a
  string for the string types and \<open>undefined\<close> for a value block that has no such field.
\<close>

record attributeTypeAndValue =
  atype :: string
  avalue :: jsval

record certificate =
  subject :: "attributeTypeAndValue list"
  issuer :: "attributeTypeAndValue list"
  notBefore :: int
  notAfter :: int

text \<open>
  The signed data carry their \<open>verify\<close> method, called with the parameters \<open>signer\<close>,
  \<open>data\<close> and \<open>checkChain\<close> (false when the caller leaves it out). The call either throws
  before it returns (\<open>Inl\<close>), as it does when the signed data have no signer information, or
  returns a promise (\<open>Inr\<close>).
\<close>

record signedData =
  certificates :: "certificate list option"
  verify :: "nat \<Rightarrow> string \<Rightarrow> bool \<Rightarrow> exn + jsval promise"

record 'a asn1Result =
  offset :: int
  result :: 'a

text \<open>
  The library calls of \<open>verifyMessageSignature\<close>: the MIME parser run on the raw message,
  \<open>asn1js.fromBER\<close>, the \<open>ContentInfo\<close> and \<open>SignedData\<close> constructors (which throw on a
  schema mismatch) and the clock read by \<open>new Date()\<close>, in milliseconds.
\<close>

record ('a, 'c) library =
  mimeParse :: "string \<Rightarrow> mimeParser"
  fromBER :: "string \<Rightarrow> 'a asn1Result"
  newContentInfo :: "'a \<Rightarrow> exn + 'c"
  newSignedData :: "'c \<Rightarrow> exn + signedData"
  now :: int

section \<open>Constants\<close>

text \<open>
  The S/MIME specification constants that the service reads. The first four fields are the
  table \<open>smimeSpecification\<close> of \<open>config/constants.js\<close>: \<open>rootNodeContentTypeValue\<close> is a
  string there, while \<open>signatureNodeContentTypeValues\<close> and the list of integrity check
  algorithms are arrays. The attribute type of the signer's e-mail address and the expiration
  margin in hours are not in that table and are parameters; the margin is a whole number of
  hours, and all times are whole milliseconds.
\<close>

record smimeSpecificationConstants =
  signatureNodeContentTypeValues :: "string list"
  rootNodeContentTypeValue :: string
  rootNodeContentTypeProtocol :: string
  rootNodeContentTypeMessageIntegrityCheckAlgorithms :: "string list"
  certificateTypeForSignerEmail :: string
  expirationDateMarginHours :: int

definition smimeSpecification :: "string \<Rightarrow> int \<Rightarrow> smimeSpecificationConstants" where
  "smimeSpecification emailType marginHours =
     \<lparr> signatureNodeContentTypeValues =
         [''application/x-pkcs7-signature'', ''application/pkcs7-signature''],
       rootNodeContentTypeValue = ''multipart/signed'',
       rootNodeContentTypeProtocol = ''application/pkcs7-signature'',
       rootNodeContentTypeMessageIntegrityCheckAlgorithms =
         [''md5'', ''sha-1'', ''sha-224'', ''sha-256'', ''sha-384'', ''sha-512'', ''unknown''],
       certificateTypeForSignerEmail = emailType,
       expirationDateMarginHours = marginHours \<rparr>"

text \<open>The result codes, \<open>smimeVerificationResultCodes\<close> of \<open>config/constants.js\<close>.\<close>

definition VERIFICATION_OK :: string where
  "VERIFICATION_OK = ''VERIFICATION_OK''"

definition CANNOT_VERIFY :: string where
  "CANNOT_VERIFY = ''CANNOT_VERIFY''"

definition FRAUD_WARNING :: string where
  "FRAUD_WARNING = ''FRAUD_WARNING''"

section \<open>The verification result\<close>

record verificationResult =
  mailId :: string
  success :: bool
  code :: string
  message :: string
  signer :: jsval

text \<open>
  Modelled from the spec: the module \<open>./resultPrototype\<close> is imported by the service but is
  not among the sources. The specification has the result constructed once per call with
  default, neutral values, and its signer empty when it was not determined. Every path of
  \<open>verifyMessageSignature\<close> assigns \<open>mailId\<close>, \<open>success\<close>, \<open>code\<close> and \<open>message\<close>, so only the
  default of \<open>signer\<close> can be observed in a returned result.
\<close>

definition getResultPrototype :: verificationResult where
  "getResultPrototype =
     \<lparr> mailId = '''', success = False, code = '''', message = '''', signer = JStr '''' \<rparr>"

definition message_from_mismatch :: string where
  "message_from_mismatch =
     ''Fraud warning: The '' @ [CHR 0x22] @ ''From'' @ [CHR 0x22] @
     '' email address does not match the signature'' @ [CHR 0x27] @ ''s email address.''"

definition message_expired :: string where
  "message_expired =
     ''The signature'' @ [CHR 0x27] @ ''s certificate has expired. Be wary of message content.''"

section \<open>The verification service\<close>

text \<open>
  A function that can throw returns \<open>exn + 'a\<close>. The operator \<open>&&\<close> evaluates its right
  operand only when the left one is truthy.
\<close>

definition js_and :: "exn + bool \<Rightarrow> exn + bool \<Rightarrow> exn + bool" where
  "js_and a b = (case a of Inl e \<Rightarrow> Inl e | Inr False \<Rightarrow> Inr False | Inr True \<Rightarrow> b)"

definition undefined_property :: exn where
  "undefined_property = TypeError ''Cannot read property of undefined''"

definition isRootNodeContentTypeValueCorrect ::
  "smimeSpecificationConstants \<Rightarrow> mimeNode \<Rightarrow> exn + bool" where
  "isRootNodeContentTypeValueCorrect C rootNode =
     (case contentType rootNode of
        None \<Rightarrow> Inl undefined_property
      | Some ct \<Rightarrow> Inr (string_indexOf (rootNodeContentTypeValue C) (ctvalue ct) \<noteq> - 1))"

definition isRootNodeContentTypeProtocolCorrect ::
  "smimeSpecificationConstants \<Rightarrow> mimeNode \<Rightarrow> exn + bool" where
  "isRootNodeContentTypeProtocolCorrect C rootNode =
     (case contentType rootNode of
        None \<Rightarrow> Inl undefined_property
      | Some ct \<Rightarrow>
          (case params ct of
             None \<Rightarrow> Inl undefined_property
           | Some ps \<Rightarrow> Inr (getProperty ps ''protocol'' = JStr (rootNodeContentTypeProtocol C))))"

definition isRootNodeContentTypeMicalgCorrect ::
  "smimeSpecificationConstants \<Rightarrow> mimeNode \<Rightarrow> exn + bool" where
  "isRootNodeContentTypeMicalgCorrect C rootNode =
     (case contentType rootNode of
        None \<Rightarrow> Inl undefined_property
      | Some ct \<Rightarrow>
          (case params ct of
             None \<Rightarrow> Inl undefined_property
           | Some ps \<Rightarrow>
               Inr (array_indexOf (rootNodeContentTypeMessageIntegrityCheckAlgorithms C)
                      (getProperty ps ''micalg'') \<noteq> - 1)))"

definition isSignatureNodeContentTypeValueCorrect ::
  "smimeSpecificationConstants \<Rightarrow> mimeNode \<Rightarrow> exn + bool" where
  "isSignatureNodeContentTypeValueCorrect C signatureNode =
     (case contentType signatureNode of
        None \<Rightarrow> Inl undefined_property
      | Some ct \<Rightarrow>
          Inr (array_indexOf (signatureNodeContentTypeValues C) (JStr (ctvalue ct)) \<noteq> - 1))"

definition isValidSmimeEmail ::
  "smimeSpecificationConstants \<Rightarrow> mimeNode \<Rightarrow> mimeNode option \<Rightarrow> exn + bool" where
  "isValidSmimeEmail C rootNode signatureNode =
     js_and (Inr (contentType rootNode \<noteq> None))
    (js_and (case contentType rootNode of
               None \<Rightarrow> Inl undefined_property
             | Some ct \<Rightarrow> Inr (params ct \<noteq> None))
    (js_and (Inr (childNodes rootNode \<noteq> None))
    (js_and (Inr (signatureNode \<noteq> None))
    (js_and (isRootNodeContentTypeValueCorrect C rootNode)
    (js_and (isRootNodeContentTypeProtocolCorrect C rootNode)
    (js_and (isRootNodeContentTypeMicalgCorrect C rootNode)
            (case signatureNode of
               None \<Rightarrow> Inl undefined_property
             | Some sn \<Rightarrow> isSignatureNodeContentTypeValueCorrect C sn)))))))"

definition getAsn1TypeFromBuffer :: "('a, 'c) library \<Rightarrow> string \<Rightarrow> exn + 'a asn1Result" where
  "getAsn1TypeFromBuffer L signatureBuffer =
     (let asn1 = fromBER L signatureBuffer
      in if offset asn1 = - 1 then Inl (TypeError ''Could not parse signature.'')
         else Inr asn1)"

definition getSignedDataFromAsn1 :: "('a, 'c) library \<Rightarrow> 'a asn1Result \<Rightarrow> exn + signedData" where
  "getSignedDataFromAsn1 L asn1 =
     (case newContentInfo L (result asn1) of
        Inl e \<Rightarrow> Inl e
      | Inr cmsContentSimpl \<Rightarrow> newSignedData L cmsContentSimpl)"

text \<open>
  \<open>fetchSignerEmail\<close> visits every certificate and every subject attribute in order and
  overwrites \<open>signerEmail\<close> at each attribute of the e-mail type.
\<close>

definition fetchSignerEmail :: "smimeSpecificationConstants \<Rightarrow> signedData \<Rightarrow> exn + jsval" where
  "fetchSignerEmail C sd =
     (case certificates sd of
        None \<Rightarrow> Inl undefined_property
      | Some certs \<Rightarrow>
          Inr (fold (\<lambda>cert signerEmail.
                 fold (\<lambda>tv signerEmail.
                         if atype tv = certificateTypeForSignerEmail C then avalue tv
                         else signerEmail)
                      (subject cert) signerEmail)
               certs JNull))"

fun anyCertificateExpired :: "int \<Rightarrow> int \<Rightarrow> certificate list \<Rightarrow> bool" where
  "anyCertificateExpired marginMilliseconds t [] = False"
| "anyCertificateExpired marginMilliseconds t (cert # certs) =
     (if t < notBefore cert - marginMilliseconds then True
      else if t > notAfter cert + marginMilliseconds then True
      else anyCertificateExpired marginMilliseconds t certs)"

definition isAnyCertificateExpired ::
  "smimeSpecificationConstants \<Rightarrow> int \<Rightarrow> signedData \<Rightarrow> exn + bool" where
  "isAnyCertificateExpired C t sd =
     (let marginMilliseconds = expirationDateMarginHours C * 60 * 60 * 1000
      in case certificates sd of
           None \<Rightarrow> Inl undefined_property
         | Some certs \<Rightarrow> Inr (anyCertificateExpired marginMilliseconds t certs))"

definition isVerificationFailed :: "jsval \<Rightarrow> bool" where
  "isVerificationFailed verificationResult =
     (if verificationResult \<noteq> JUndefined then
        (if verificationResult = JBool False then True else False)
      else False)"

definition isFromAddressCorrect :: "mimeParser \<Rightarrow> jsval \<Rightarrow> exn + bool" where
  "isFromAddressCorrect parser signerEmail =
     (case headers (node parser) ''from'' of
        None \<Rightarrow> Inl undefined_property
      | Some [] \<Rightarrow> Inl undefined_property
      | Some (h # _) \<Rightarrow>
          (case hvalue h of
             [] \<Rightarrow> Inl undefined_property
           | fromNode # _ \<Rightarrow> Inr (optionalString (address fromNode) = signerEmail)))"

text \<open>
  The call of \<open>raw.replace\<close> with the global pattern for a line feed: every line feed
  becomes carriage return, line feed.
\<close>

definition replace_LF_by_CRLF :: "string \<Rightarrow> string" where
  "replace_LF_by_CRLF s =
     concat (map (\<lambda>c. if c = CHR 0x0A then [CHR 0x0D, CHR 0x0A] else [c]) s)"

text \<open>
  The \<open>try\<close> block of \<open>verifyMessageSignature\<close>: the signature buffer is decoded and the
  signer's address fetched; any exception leaves the block.
\<close>

definition decodeSignature ::
  "('a, 'c) library \<Rightarrow> smimeSpecificationConstants \<Rightarrow> mimeNode option
     \<Rightarrow> exn + signedData \<times> jsval" where
  "decodeSignature L C signatureNode =
     (case signatureNode of
        None \<Rightarrow> Inl undefined_property
      | Some sn \<Rightarrow>
          (let signatureBuffer = [] @ content sn
           in case getAsn1TypeFromBuffer L signatureBuffer of
                Inl ex \<Rightarrow> Inl ex
              | Inr asn1 \<Rightarrow>
                  (case getSignedDataFromAsn1 L asn1 of
                     Inl ex \<Rightarrow> Inl ex
                   | Inr cmsSignedSimpl \<Rightarrow>
                       (case fetchSignerEmail C cmsSignedSimpl of
                          Inl ex \<Rightarrow> Inl ex
                        | Inr signerEmail \<Rightarrow> Inr (cmsSignedSimpl, signerEmail)))))"

text \<open>
  The handlers of the promise returned by \<open>cmsSignedSimpl.verify\<close>. An exception thrown in the
  \<open>then\<close> handler rejects the chained promise and reaches the \<open>catch\<close> handler, after
  \<open>result.signer\<close> was assigned.
\<close>

definition verificationHandlers ::
  "mimeParser \<Rightarrow> jsval \<Rightarrow> verificationResult \<Rightarrow> jsval promise \<Rightarrow> verificationResult" where
  "verificationHandlers parser signerEmail res p =
     (case p of
        Rejected error \<Rightarrow>
          res\<lparr>success := False, code := CANNOT_VERIFY,
              message := ''Message cannot be verified: Unknown error.''\<rparr>
      | Resolved verificationResult \<Rightarrow>
          (let res = res\<lparr>signer := signerEmail\<rparr>
           in if isVerificationFailed verificationResult then
                res\<lparr>success := False, code := FRAUD_WARNING,
                    message := ''Fraud warning: Message failed verification with signature.''\<rparr>
              else
                (case isFromAddressCorrect parser signerEmail of
                   Inl error \<Rightarrow>
                     res\<lparr>success := False, code := CANNOT_VERIFY,
                         message := ''Message cannot be verified: Unknown error.''\<rparr>
                 | Inr False \<Rightarrow>
                     res\<lparr>success := False, code := FRAUD_WARNING,
                         message := message_from_mismatch\<rparr>
                 | Inr True \<Rightarrow>
                     res\<lparr>success := True, code := VERIFICATION_OK,
                         message := ''Message includes a valid digital signature for the sender.''\<rparr>)))"

text \<open>
  \<open>verifyMessageSignature\<close>: \<open>Inr\<close> is the result the promise resolves with, \<open>Inl\<close> an
  exception that escapes the executor and rejects the promise. The call of
  \<open>cmsSignedSimpl.verify\<close> is outside the \<open>try\<close> block, so an exception it throws escapes too.
\<close>

definition verifyMessageSignature ::
  "('a, 'c) library \<Rightarrow> smimeSpecificationConstants \<Rightarrow> string \<Rightarrow> string
     \<Rightarrow> exn + verificationResult" where
  "verifyMessageSignature L C rawMessage mid =
     (let res = getResultPrototype\<lparr>mailId := mid\<rparr>;
          parser = mimeParse L rawMessage;
          signatureNode = getNode parser ''2''
      in case isValidSmimeEmail C (node parser) signatureNode of
           Inl ex \<Rightarrow> Inl ex
         | Inr False \<Rightarrow>
             Inr (res\<lparr>success := False, code := CANNOT_VERIFY,
                      message := ''Message is not digitally signed.''\<rparr>)
         | Inr True \<Rightarrow>
             (case decodeSignature L C signatureNode of
                Inl ex \<Rightarrow>
                  Inr (res\<lparr>success := False, code := FRAUD_WARNING,
                           message := ''Fraud warning: Invalid digital signature.''\<rparr>)
              | Inr (cmsSignedSimpl, signerEmail) \<Rightarrow>
                  (case isAnyCertificateExpired C (now L) cmsSignedSimpl of
                     Inl ex \<Rightarrow> Inl ex
                   | Inr True \<Rightarrow>
                       Inr (res\<lparr>success := False, code := FRAUD_WARNING,
                                message := message_expired\<rparr>)
                   | Inr False \<Rightarrow>
                       (case nodes parser ''node1'' of
                          None \<Rightarrow> Inl undefined_property
                        | Some node1 \<Rightarrow>
                            (let signedDataBuffer = replace_LF_by_CRLF (raw node1)
                             in case verify cmsSignedSimpl 0 signedDataBuffer False of
                                  Inl ex \<Rightarrow> Inl ex
                                | Inr p \<Rightarrow>
                                    Inr (verificationHandlers parser signerEmail res p))))))"

text \<open>
  The path condition of the call \<open>cmsSignedSimpl.verify\<close>: the envelope check passes, the
  \<open>try\<close> block yields the signed data \<open>cms\<close> and the signer address \<open>email\<close>, no
  certificate is expired and the parser has the content node \<open>node1\<close>.
\<close>

definition verificationReached ::
  "('a, 'c) library \<Rightarrow> smimeSpecificationConstants \<Rightarrow> string \<Rightarrow> signedData \<Rightarrow> jsval
     \<Rightarrow> mimeNode \<Rightarrow> bool" where
  "verificationReached L C rawMessage cms email node1 \<longleftrightarrow>
     isValidSmimeEmail C (node (mimeParse L rawMessage)) (getNode (mimeParse L rawMessage) ''2'')
       = Inr True \<and>
     decodeSignature L C (getNode (mimeParse L rawMessage) ''2'') = Inr (cms, email) \<and>
     isAnyCertificateExpired C (now L) cms = Inr False \<and>
     nodes (mimeParse L rawMessage) ''node1'' = Some node1"

text \<open>The lines of a text, joined by a separator.\<close>

fun joinLines :: "string \<Rightarrow> string list \<Rightarrow> string" where
  "joinLines sep [] = []"
| "joinLines sep [l] = l"
| "joinLines sep (l # m # ls) = l @ sep @ joinLines sep (m # ls)"

text \<open>
  The text of a node as the MIME parser keeps it: the parser splits what is written to it at
  the pattern of an optional carriage return followed by a line feed, and joins the lines of
  a node by line feeds. \<open>splitLines\<close> is that split; \<open>usesCRLF\<close> holds for a text in which
  every line feed follows a carriage return.
\<close>

fun splitLines :: "string \<Rightarrow> string list" where
  "splitLines [] = [[]]"
| "splitLines [c] = (if c = CHR 0x0A then [[], []] else [[c]])"
| "splitLines (c # d # s) =
     (if c = CHR 0x0D \<and> d = CHR 0x0A then [] # splitLines s
      else if c = CHR 0x0A then [] # splitLines (d # s)
      else (case splitLines (d # s) of [] \<Rightarrow> [[c]] | l # ls \<Rightarrow> (c # l) # ls))"

fun usesCRLF :: "string \<Rightarrow> bool" where
  "usesCRLF [] = True"
| "usesCRLF [c] = (c \<noteq> CHR 0x0A)"
| "usesCRLF (c # d # s) =
     (if d = CHR 0x0A then c = CHR 0x0D \<and> usesCRLF s else c \<noteq> CHR 0x0A \<and> usesCRLF (d # s))"

section \<open>The envelope check in the words of the specification\<close>

text \<open>
  The specification's contract of the envelope validator: the root content type is
  \<open>multipart/signed\<close>, the protocol parameter equals \<open>application/pkcs7-signature\<close>, the micalg
  parameter matches one of the seven names without regard to case, the root node has child
  nodes, and the signature node exists with one of the two signature content types.
\<close>

definition toLowerCase :: "string \<Rightarrow> string" where
  "toLowerCase s =
     map (\<lambda>c. case map_of (zip ''ABCDEFGHIJKLMNOPQRSTUVWXYZ'' ''abcdefghijklmnopqrstuvwxyz'') c of
                 None \<Rightarrow> c
               | Some l \<Rightarrow> l) s"

definition envelopeWellFormed_spec :: "mimeNode \<Rightarrow> mimeNode option \<Rightarrow> bool" where
  "envelopeWellFormed_spec rootNode signatureNode =
     (case contentType rootNode of
        None \<Rightarrow> False
      | Some ct \<Rightarrow>
          ctvalue ct = ''multipart/signed'' \<and>
          (case params ct of
             None \<Rightarrow> False
           | Some ps \<Rightarrow>
               ps ''protocol'' = Some ''application/pkcs7-signature'' \<and>
               (case ps ''micalg'' of
                  None \<Rightarrow> False
                | Some m \<Rightarrow>
                    toLowerCase m \<in> set [''md5'', ''sha-1'', ''sha-224'', ''sha-256'',
                      ''sha-384'', ''sha-512'', ''unknown''])) \<and>
          childNodes rootNode \<noteq> None \<and>
          (case signatureNode of
             None \<Rightarrow> False
           | Some sn \<Rightarrow>
               (case contentType sn of
                  None \<Rightarrow> False
                | Some sct \<Rightarrow>
                    ctvalue sct \<in> set [''application/x-pkcs7-signature'',
                      ''application/pkcs7-signature''])))"

section \<open>The revision of the service that builds an OCSP request\<close>

text \<open>
  The second revision of the class keeps the encoded OCSP request in the field
  \<open>ocspReqBuffer\<close> of the service object; the constructor sets it to an empty buffer. The
  methods take the state of the object and return the new one.
\<close>

record serviceState =
  ocspReqBuffer :: string

definition newSmimeVerificationService :: serviceState where
  "newSmimeVerificationService = \<lparr>ocspReqBuffer = []\<rparr>"

definition charAt :: "string \<Rightarrow> nat \<Rightarrow> string" where
  "charAt s i = (if i < length s then [s ! i] else [])"

text \<open>
  \<open>nonceGenerator\<close>: \<open>rnd i\<close> is the value of
  \<open>Math.floor(Math.random() * possible.length)\<close> in iteration \<open>i\<close> of the loop.
\<close>

definition nonceGenerator :: "(nat \<Rightarrow> nat) \<Rightarrow> nat \<Rightarrow> string" where
  "nonceGenerator rnd len =
     (let possible = ''ABCDEFGHIJKLMNOPQRSTUVWXYZabcdefghijklmnopqrstuvwxyz0123456789''
      in fold (\<lambda>i text. text @ charAt possible (rnd i)) [0..<len] [])"

text \<open>
  The \<open>try\<close> block of the second revision. \<open>encodeRequest\<close> stands for the construction of
  the OCSP request from the signed data and the nonce and its encoding by pkijs. Reading a
  property of \<open>certificates[0]\<close>, of \<open>issuer.typesAndValues[3]\<close> or of
  \<open>subject.typesAndValues[0]\<close> throws when that element does not exist; the last of these is
  read after the field was assigned.
\<close>

definition buildRequestAndDecode ::
  "('a, 'c) library \<Rightarrow> (signedData \<Rightarrow> string \<Rightarrow> string) \<Rightarrow> (nat \<Rightarrow> nat) \<Rightarrow> serviceState
     \<Rightarrow> mimeNode option \<Rightarrow> (exn + signedData \<times> jsval) \<times> serviceState" where
  "buildRequestAndDecode L encodeRequest rnd this signatureNode =
     (case signatureNode of
        None \<Rightarrow> (Inl undefined_property, this)
      | Some sn \<Rightarrow>
          (let signatureBuffer = [] @ content sn
           in case getAsn1TypeFromBuffer L signatureBuffer of
                Inl ex \<Rightarrow> (Inl ex, this)
              | Inr asn1 \<Rightarrow>
                  (case getSignedDataFromAsn1 L asn1 of
                     Inl ex \<Rightarrow> (Inl ex, this)
                   | Inr cmsSignedSimpl \<Rightarrow>
                       (case certificates cmsSignedSimpl of
                          None \<Rightarrow> (Inl undefined_property, this)
                        | Some [] \<Rightarrow> (Inl undefined_property, this)
                        | Some (cert0 # _) \<Rightarrow>
                            if length (issuer cert0) \<le> 3 then (Inl undefined_property, this)
                            else
                              (let this = this\<lparr>ocspReqBuffer :=
                                     encodeRequest cmsSignedSimpl (nonceGenerator rnd 32)\<rparr>
                               in case subject cert0 of
                                    [] \<Rightarrow> (Inl undefined_property, this)
                                  | tv # _ \<Rightarrow>
                                      (Inr (cmsSignedSimpl, avalue tv), this))))))"

definition verifyMessageSignature_ocsp ::
  "('a, 'c) library \<Rightarrow> (signedData \<Rightarrow> string \<Rightarrow> string) \<Rightarrow> (nat \<Rightarrow> nat)
     \<Rightarrow> smimeSpecificationConstants \<Rightarrow> serviceState \<Rightarrow> string \<Rightarrow> string
     \<Rightarrow> (exn + verificationResult) \<times> serviceState" where
  "verifyMessageSignature_ocsp L encodeRequest rnd C this rawMessage mid =
     (let res = getResultPrototype\<lparr>mailId := mid\<rparr>;
          parser = mimeParse L rawMessage;
          signatureNode = getNode parser ''2''
      in case isValidSmimeEmail C (node parser) signatureNode of
           Inl ex \<Rightarrow> (Inl ex, this)
         | Inr False \<Rightarrow>
             (Inr (res\<lparr>success := False, code := CANNOT_VERIFY,
                       message := ''Message is not digitally signed.''\<rparr>), this)
         | Inr True \<Rightarrow>
             (case buildRequestAndDecode L encodeRequest rnd this signatureNode of
                (Inl ex, this) \<Rightarrow>
                  (Inr (res\<lparr>success := False, code := FRAUD_WARNING,
                            message := ''Fraud warning: Invalid digital signature.''\<rparr>), this)
              | (Inr (cmsSignedSimpl, signerEmail), this) \<Rightarrow>
                  (case nodes parser ''node1'' of
                     None \<Rightarrow> (Inl undefined_property, this)
                   | Some node1 \<Rightarrow>
                       (let signedDataBuffer = replace_LF_by_CRLF (raw node1)
                        in case verify cmsSignedSimpl 0 signedDataBuffer True of
                             Inl ex \<Rightarrow> (Inl ex, this)
                           | Inr p \<Rightarrow>
                               (Inr (verificationHandlers parser signerEmail res p), this)))))"

section \<open>A sample message\<close>

text \<open>
  A two-part message, the library calls that decode its signature part, and a certificate,
  with the parts that the properties below vary left as parameters.
\<close>

definition samplePart :: "string \<Rightarrow> string \<Rightarrow> mimeNode" where
  "samplePart ctv body =
     MimeNode (Some \<lparr>ctvalue = ctv, params = Some Map.empty\<rparr>) None Map.empty body body"

definition sampleRoot :: "string \<Rightarrow> string \<Rightarrow> string \<Rightarrow> mimeNode list \<Rightarrow> mimeNode" where
  "sampleRoot ctv micalg fromAddress parts =
     MimeNode
       (Some \<lparr>ctvalue = ctv,
              params = Some [''protocol'' \<mapsto> ''application/pkcs7-signature'',
                             ''micalg'' \<mapsto> micalg, ''boundary'' \<mapsto> ''b'']\<rparr>)
       (Some parts)
       [''from'' \<mapsto> [\<lparr>hvalue = [\<lparr>mb_name = ''Sender'', address = Some fromAddress\<rparr>]\<rparr>]]
       [] []"

definition sampleParser :: "string \<Rightarrow> string \<Rightarrow> string \<Rightarrow> string \<Rightarrow> mimeParser" where
  "sampleParser ctv micalg fromAddress body =
     \<lparr>node = sampleRoot ctv micalg fromAddress
               [samplePart ''text/plain'' body, samplePart ''application/pkcs7-signature'' ''0''],
      nodes = [''node1'' \<mapsto> samplePart ''text/plain'' body,
               ''node2'' \<mapsto> samplePart ''application/pkcs7-signature'' ''0'']\<rparr>"

definition sampleCertificate :: "string \<Rightarrow> certificate" where
  "sampleCertificate email =
     \<lparr>subject = [\<lparr>atype = ''2.5.4.3'', avalue = JStr ''Sender''\<rparr>,
                 \<lparr>atype = ''1.2.840.113549.1.9.1'', avalue = JStr email\<rparr>],
      issuer = [], notBefore = 1500000000000, notAfter = 1600000000000\<rparr>"

text \<open>A certificate whose issuer name has four attributes.\<close>

definition sampleIssuedCertificate :: "string \<Rightarrow> certificate" where
  "sampleIssuedCertificate email =
     \<lparr>subject = [\<lparr>atype = ''1.2.840.113549.1.9.1'', avalue = JStr email\<rparr>],
      issuer = [\<lparr>atype = ''2.5.4.6'', avalue = JStr ''DE''\<rparr>,
                \<lparr>atype = ''2.5.4.10'', avalue = JStr ''Issuer''\<rparr>,
                \<lparr>atype = ''2.5.4.11'', avalue = JStr ''Unit''\<rparr>,
                \<lparr>atype = ''2.5.4.3'', avalue = JStr ''Issuer CA''\<rparr>],
      notBefore = 1500000000000, notAfter = 1600000000000\<rparr>"

definition sampleSignedData :: "certificate list \<Rightarrow> jsval promise \<Rightarrow> signedData" where
  "sampleSignedData certs outcome =
     \<lparr>certificates = Some certs, verify = (\<lambda>index buffer checkChain. Inr outcome)\<rparr>"

text \<open>Signed data whose signature verifies for exactly one text.\<close>

definition sampleSignedDataOver :: "certificate list \<Rightarrow> string \<Rightarrow> signedData" where
  "sampleSignedDataOver certs signedText =
     \<lparr>certificates = Some certs,
      verify = (\<lambda>index buffer checkChain. Inr (Resolved (JBool (buffer = signedText))))\<rparr>"

text \<open>Signed data without signer information: the call of \<open>verify\<close> throws.\<close>

definition sampleUnsignedData :: "certificate list \<Rightarrow> signedData" where
  "sampleUnsignedData certs =
     \<lparr>certificates = Some certs,
      verify = (\<lambda>index buffer checkChain. Inl undefined_property)\<rparr>"

text \<open>A certificate whose subject has no e-mail attribute.\<close>

definition sampleCertificateWithoutEmail :: certificate where
  "sampleCertificateWithoutEmail =
     \<lparr>subject = [\<lparr>atype = ''2.5.4.3'', avalue = JStr ''Sender''\<rparr>],
      issuer = [], notBefore = 1500000000000, notAfter = 1600000000000\<rparr>"

definition sampleLibrary :: "mimeParser \<Rightarrow> int \<Rightarrow> signedData \<Rightarrow> int \<Rightarrow> (unit, unit) library" where
  "sampleLibrary parser off cms t =
     \<lparr>mimeParse = (\<lambda>rawMessage. parser),
      fromBER = (\<lambda>buffer. \<lparr>offset = off, result = ()\<rparr>),
      newContentInfo = (\<lambda>schema. Inr ()),
      newSignedData = (\<lambda>schema. Inr cms),
      now = t\<rparr>"

text \<open>A library whose \<open>ContentInfo\<close> and \<open>SignedData\<close> constructors give the stated outcomes.\<close>

definition sampleLibraryWith ::
  "mimeParser \<Rightarrow> exn + unit \<Rightarrow> exn + signedData \<Rightarrow> (unit, unit) library" where
  "sampleLibraryWith parser contentInfo cms =
     \<lparr>mimeParse = (\<lambda>rawMessage. parser),
      fromBER = (\<lambda>buffer. \<lparr>offset = 1, result = ()\<rparr>),
      newContentInfo = (\<lambda>schema. contentInfo),
      newSignedData = (\<lambda>schema. cms),
      now = 1550000000000\<rparr>"

definition sampleConstants :: smimeSpecificationConstants where
  "sampleConstants = smimeSpecification ''1.2.840.113549.1.9.1'' 1"

section \<open>The stages of the pipeline\<close>

lemmas sample_defs = sampleLibrary_def sampleParser_def sampleRoot_def samplePart_def
  sampleCertificate_def sampleSignedData_def sampleConstants_def smimeSpecification_def

lemmas envelope_defs = isValidSmimeEmail_def js_and_def getNode_def
  isRootNodeContentTypeValueCorrect_def isRootNodeContentTypeProtocolCorrect_def
  isRootNodeContentTypeMicalgCorrect_def isSignatureNodeContentTypeValueCorrect_def
  string_indexOf_def array_indexOf_def getProperty_def optionalString_def

lemmas decode_defs = decodeSignature_def getAsn1TypeFromBuffer_def getNode_def
  getSignedDataFromAsn1_def fetchSignerEmail_def

lemma verifyMessageSignature_unsigned:
  assumes "isValidSmimeEmail C (node (mimeParse L rawMessage))
             (getNode (mimeParse L rawMessage) ''2'') = Inr False"
  shows "verifyMessageSignature L C rawMessage mid =
           Inr (getResultPrototype\<lparr>mailId := mid, success := False, code := CANNOT_VERIFY,
                  message := ''Message is not digitally signed.''\<rparr>)"
  using assms by (simp add: verifyMessageSignature_def)

lemma verifyMessageSignature_undecodable:
  assumes "isValidSmimeEmail C (node (mimeParse L rawMessage))
             (getNode (mimeParse L rawMessage) ''2'') = Inr True"
    and "decodeSignature L C (getNode (mimeParse L rawMessage) ''2'') = Inl ex"
  shows "verifyMessageSignature L C rawMessage mid =
           Inr (getResultPrototype\<lparr>mailId := mid, success := False, code := FRAUD_WARNING,
                  message := ''Fraud warning: Invalid digital signature.''\<rparr>)"
  using assms by (simp add: verifyMessageSignature_def)

lemma verifyMessageSignature_expired:
  assumes "isValidSmimeEmail C (node (mimeParse L rawMessage))
             (getNode (mimeParse L rawMessage) ''2'') = Inr True"
    and "decodeSignature L C (getNode (mimeParse L rawMessage) ''2'') = Inr (cms, email)"
    and "isAnyCertificateExpired C (now L) cms = Inr True"
  shows "verifyMessageSignature L C rawMessage mid =
           Inr (getResultPrototype\<lparr>mailId := mid, success := False, code := FRAUD_WARNING,
                  message := message_expired\<rparr>)"
  using assms by (simp add: verifyMessageSignature_def)

lemma verifyMessageSignature_called:
  assumes "verificationReached L C rawMessage cms email node1"
  shows "verifyMessageSignature L C rawMessage mid =
           (case verify cms 0 (replace_LF_by_CRLF (raw node1)) False of
              Inl ex \<Rightarrow> Inl ex
            | Inr p \<Rightarrow>
                Inr (verificationHandlers (mimeParse L rawMessage) email
                       (getResultPrototype\<lparr>mailId := mid\<rparr>) p))"
  using assms by (simp add: verifyMessageSignature_def verificationReached_def)

lemma verifyMessageSignature_verified:
  assumes "verificationReached L C rawMessage cms email node1"
    and "verify cms 0 (replace_LF_by_CRLF (raw node1)) False = Inr p"
  shows "verifyMessageSignature L C rawMessage mid =
           Inr (verificationHandlers (mimeParse L rawMessage) email
                  (getResultPrototype\<lparr>mailId := mid\<rparr>) p)"
  by (simp add: verifyMessageSignature_called [OF assms(1)] assms(2))

lemma anyCertificateExpired_iff:
  "anyCertificateExpired m t certs \<longleftrightarrow>
     (\<exists>cert \<in> set certs. t < notBefore cert - m \<or> t > notAfter cert + m)"
  by (induction certs) auto

lemma isVerificationFailed_iff: "isVerificationFailed v \<longleftrightarrow> v = JBool False"
  by (auto simp: isVerificationFailed_def)

lemma codes_distinct:
  "FRAUD_WARNING \<noteq> CANNOT_VERIFY" "FRAUD_WARNING \<noteq> VERIFICATION_OK"
  "CANNOT_VERIFY \<noteq> VERIFICATION_OK"
  by (simp_all add: FRAUD_WARNING_def CANNOT_VERIFY_def VERIFICATION_OK_def)

subsection \<open>The sample message\<close>

lemma sample_envelope_valid:
  "isValidSmimeEmail sampleConstants
     (node (mimeParse (sampleLibrary (sampleParser ''multipart/signed'' ''sha-256'' fromAddress body) off cms t) rawMessage))
     (getNode (mimeParse (sampleLibrary (sampleParser ''multipart/signed'' ''sha-256'' fromAddress body) off cms t) rawMessage) ''2'')
   = Inr True"
  by (simp add: sample_defs envelope_defs)

lemma sample_decoded:
  assumes "certificates cms = Some [sampleCertificate email]"
  shows "decodeSignature (sampleLibrary (sampleParser ctv micalg fromAddress body) 1 cms t)
           sampleConstants
           (getNode (mimeParse (sampleLibrary (sampleParser ctv micalg fromAddress body) 1 cms t)
              rawMessage) ''2'')
         = Inr (cms, JStr email)"
  using assms by (simp add: sample_defs decode_defs)

lemma sample_reached:
  assumes "certificates cms = Some [sampleCertificate email]"
  shows "verificationReached
           (sampleLibrary (sampleParser ''multipart/signed'' ''sha-256'' fromAddress body) 1 cms
              1550000000000)
           sampleConstants rawMessage cms (JStr email) (samplePart ''text/plain'' body)"
  unfolding verificationReached_def
proof (intro conjI)
  show "isAnyCertificateExpired sampleConstants
          (now (sampleLibrary (sampleParser ''multipart/signed'' ''sha-256'' fromAddress body) 1 cms
                  1550000000000)) cms = Inr False"
    using assms by (simp add: isAnyCertificateExpired_def sample_defs)
  show "nodes (mimeParse (sampleLibrary (sampleParser ''multipart/signed'' ''sha-256'' fromAddress
                 body) 1 cms 1550000000000) rawMessage) ''node1''
          = Some (samplePart ''text/plain'' body)"
    by (simp add: sample_defs)
qed (rule sample_envelope_valid sample_decoded [OF assms])+

lemma sample_certificates:
  "certificates (sampleSignedData certs outcome) = Some certs"
  "certificates (sampleSignedDataOver certs signedText) = Some certs"
  "certificates (sampleUnsignedData certs) = Some certs"
  by (simp_all add: sampleSignedData_def sampleSignedDataOver_def sampleUnsignedData_def)

lemma sample_verify:
  "verify (sampleSignedData certs outcome) index buffer checkChain = Inr outcome"
  "verify (sampleSignedDataOver certs signedText) index buffer checkChain
     = Inr (Resolved (JBool (buffer = signedText)))"
  "verify (sampleUnsignedData certs) index buffer checkChain = Inl undefined_property"
  by (simp_all add: sampleSignedData_def sampleSignedDataOver_def sampleUnsignedData_def)

lemma sample_from:
  "isFromAddressCorrect
     (mimeParse (sampleLibrary (sampleParser ctv micalg fromAddress body) off cms t) rawMessage)
     (JStr email) = Inr (fromAddress = email)"
  by (simp add: isFromAddressCorrect_def sample_defs optionalString_def)

section \<open>Properties of the verification service\<close>




text \<open>
  Claim C3. When the envelope check passes and the signature decodes, and the current time is
  strictly before \<open>notBefore\<close> minus the margin or strictly after \<open>notAfter\<close> plus the
  margin for any one certificate of the signed data, the result is \<open>FRAUD_WARNING\<close> with the
  expiration message. The \<open>verify\<close> operation of the signed data is arbitrary here, so the
  result does not depend on what the signature check would give.
\<close>

theorem expired_certificate_gives_fraud_warning:
  assumes "isValidSmimeEmail C (node (mimeParse L rawMessage))
             (getNode (mimeParse L rawMessage) ''2'') = Inr True"
    and "decodeSignature L C (getNode (mimeParse L rawMessage) ''2'') = Inr (cms, email)"
    and "certificates cms = Some certs"
    and "cert \<in> set certs"
    and "now L < notBefore cert - expirationDateMarginHours C * 60 * 60 * 1000 \<or>
         now L > notAfter cert + expirationDateMarginHours C * 60 * 60 * 1000"
  shows "verifyMessageSignature L C rawMessage mid =
           Inr (getResultPrototype\<lparr>mailId := mid, success := False, code := FRAUD_WARNING,
                  message := message_expired\<rparr>)"
proof -
  have "anyCertificateExpired (expirationDateMarginHours C * 60 * 60 * 1000) (now L) certs"
    unfolding anyCertificateExpired_iff using assms(4,5) by blast
  then have "isAnyCertificateExpired C (now L) cms = Inr True"
    using assms(3) by (simp add: isAnyCertificateExpired_def)
  with assms(1,2) show ?thesis
    by (rule verifyMessageSignature_expired)
qed

theorem expired_certificate_gives_fraud_warning_witness:
  "verifyMessageSignature
     (sampleLibrary (sampleParser ''multipart/signed'' ''sha-256'' ''a@example.com'' ''hello'') 1
        (sampleSignedData [sampleCertificate ''a@example.com''] (Resolved (JBool True)))
        1700000000000)
     sampleConstants ''message'' ''id1'' =
   Inr \<lparr>mailId = ''id1'', success = False, code = FRAUD_WARNING, message = message_expired,
        signer = JStr ''''\<rparr>"
proof -
  let ?cms = "sampleSignedData [sampleCertificate ''a@example.com''] (Resolved (JBool True))"
  let ?L = "sampleLibrary (sampleParser ''multipart/signed'' ''sha-256'' ''a@example.com'' ''hello'')
              1 ?cms 1700000000000"
  have 1: "isValidSmimeEmail sampleConstants (node (mimeParse ?L ''message''))
             (getNode (mimeParse ?L ''message'') ''2'') = Inr True"
    by (rule sample_envelope_valid)
  have 2: "decodeSignature ?L sampleConstants (getNode (mimeParse ?L ''message'') ''2'')
             = Inr (?cms, JStr ''a@example.com'')"
    by (rule sample_decoded) (rule sample_certificates)
  have 3: "certificates ?cms = Some [sampleCertificate ''a@example.com'']"
    by (simp add: sampleSignedData_def)
  have 4: "sampleCertificate ''a@example.com'' \<in> set [sampleCertificate ''a@example.com'']"
    by simp
  have 5: "now ?L < notBefore (sampleCertificate ''a@example.com'')
                     - expirationDateMarginHours sampleConstants * 60 * 60 * 1000 \<or>
           now ?L > notAfter (sampleCertificate ''a@example.com'')
                     + expirationDateMarginHours sampleConstants * 60 * 60 * 1000"
    by (simp add: sample_defs)
  show ?thesis
    using expired_certificate_gives_fraud_warning [OF 1 2 3 4 5, of "''id1''"]
    by (simp add: getResultPrototype_def)
qed

text \<open>
  Claim C5, amended. When the envelope check of the code passes, with its case-sensitive
  comparison of the micalg parameter, and the bytes of the signature node do not decode
  (\<open>fromBER\<close> reports offset \<open>-1\<close>) or the \<open>ContentInfo\<close> constructor or the \<open>SignedData\<close>
  constructor throws, a result is returned, not an exception, and it is \<open>FRAUD_WARNING\<close> with
  the message of an invalid digital signature, not \<open>CANNOT_VERIFY\<close>. The counterexample is
  an envelope that is well formed in the words of the specification, with the micalg
  parameter \<open>SHA-256\<close>, and a signature that does not decode: the result is \<open>CANNOT_VERIFY\<close>.
\<close>

theorem undecodable_signature_gives_fraud_warning:
  assumes "isValidSmimeEmail C (node (mimeParse L rawMessage))
             (getNode (mimeParse L rawMessage) ''2'') = Inr True"
    and "getNode (mimeParse L rawMessage) ''2'' = Some signatureNode"
    and "offset (fromBER L (content signatureNode)) = - 1 \<or>
         (\<exists>ex. newContentInfo L (result (fromBER L (content signatureNode))) = Inl ex) \<or>
         (\<exists>contentInfo ex.
            newContentInfo L (result (fromBER L (content signatureNode))) = Inr contentInfo \<and>
            newSignedData L contentInfo = Inl ex)"
  shows "verifyMessageSignature L C rawMessage mid =
           Inr (getResultPrototype\<lparr>mailId := mid, success := False, code := FRAUD_WARNING,
                  message := ''Fraud warning: Invalid digital signature.''\<rparr>) \<and>
         FRAUD_WARNING \<noteq> CANNOT_VERIFY"
proof -
  have "\<exists>ex'. decodeSignature L C (Some signatureNode) = Inl ex'"
  proof (cases "offset (fromBER L (content signatureNode)) = - 1")
    case True
    then show ?thesis
      by (simp add: decodeSignature_def getAsn1TypeFromBuffer_def)
  next
    case False
    with assms(3) show ?thesis
      by (auto simp add: decodeSignature_def getAsn1TypeFromBuffer_def
          getSignedDataFromAsn1_def)
  qed
  then obtain ex' where
    "decodeSignature L C (getNode (mimeParse L rawMessage) ''2'') = Inl ex'"
    unfolding assms(2) by blast
  with assms(1) show ?thesis
    by (simp add: verifyMessageSignature_undecodable codes_distinct)
qed

theorem undecodable_signature_gives_fraud_warning_witness:
  "verifyMessageSignature
     (sampleLibrary (sampleParser ''multipart/signed'' ''sha-256'' ''a@example.com'' ''hello'')
        (- 1) (sampleSignedData [sampleCertificate ''a@example.com''] (Resolved (JBool True)))
        1550000000000)
     sampleConstants ''message'' ''id1'' =
   Inr \<lparr>mailId = ''id1'', success = False, code = FRAUD_WARNING,
        message = ''Fraud warning: Invalid digital signature.'', signer = JStr ''''\<rparr> \<and>
   verifyMessageSignature
     (sampleLibraryWith (sampleParser ''multipart/signed'' ''sha-256'' ''a@example.com'' ''hello'')
        (Inl LibraryError)
        (Inr (sampleSignedData [sampleCertificate ''a@example.com''] (Resolved (JBool True)))))
     sampleConstants ''message'' ''id1'' =
   Inr \<lparr>mailId = ''id1'', success = False, code = FRAUD_WARNING,
        message = ''Fraud warning: Invalid digital signature.'', signer = JStr ''''\<rparr> \<and>
   verifyMessageSignature
     (sampleLibraryWith (sampleParser ''multipart/signed'' ''sha-256'' ''a@example.com'' ''hello'')
        (Inr ()) (Inl LibraryError))
     sampleConstants ''message'' ''id1'' =
   Inr \<lparr>mailId = ''id1'', success = False, code = FRAUD_WARNING,
        message = ''Fraud warning: Invalid digital signature.'', signer = JStr ''''\<rparr>"
proof -
  let ?P = "sampleParser ''multipart/signed'' ''sha-256'' ''a@example.com'' ''hello''"
  let ?sn = "samplePart ''application/pkcs7-signature'' ''0''"
  let ?cms = "sampleSignedData [sampleCertificate ''a@example.com''] (Resolved (JBool True))"
  let ?L1 = "sampleLibrary ?P (- 1) ?cms 1550000000000"
  let ?L2 = "sampleLibraryWith ?P (Inl LibraryError) (Inr ?cms)"
  let ?L3 = "sampleLibraryWith ?P (Inr ()) (Inl LibraryError)"
  have v1: "isValidSmimeEmail sampleConstants (node (mimeParse ?L1 ''message''))
             (getNode (mimeParse ?L1 ''message'') ''2'') = Inr True"
    by (rule sample_envelope_valid)
  have v2: "isValidSmimeEmail sampleConstants (node (mimeParse ?L2 ''message''))
             (getNode (mimeParse ?L2 ''message'') ''2'') = Inr True"
    by (simp add: sampleLibraryWith_def sample_defs envelope_defs)
  have v3: "isValidSmimeEmail sampleConstants (node (mimeParse ?L3 ''message''))
             (getNode (mimeParse ?L3 ''message'') ''2'') = Inr True"
    by (simp add: sampleLibraryWith_def sample_defs envelope_defs)
  have n1: "getNode (mimeParse ?L1 ''message'') ''2'' = Some ?sn"
    by (simp add: getNode_def sampleLibrary_def sampleParser_def)
  have n2: "getNode (mimeParse ?L2 ''message'') ''2'' = Some ?sn"
    by (simp add: getNode_def sampleLibraryWith_def sampleParser_def)
  have n3: "getNode (mimeParse ?L3 ''message'') ''2'' = Some ?sn"
    by (simp add: getNode_def sampleLibraryWith_def sampleParser_def)
  have d1: "offset (fromBER ?L1 (content ?sn)) = - 1 \<or>
         (\<exists>ex. newContentInfo ?L1 (result (fromBER ?L1 (content ?sn))) = Inl ex) \<or>
         (\<exists>contentInfo ex.
            newContentInfo ?L1 (result (fromBER ?L1 (content ?sn))) = Inr contentInfo \<and>
            newSignedData ?L1 contentInfo = Inl ex)"
    by (simp add: sampleLibrary_def)
  have "\<exists>ex. newContentInfo ?L2 (result (fromBER ?L2 (content ?sn))) = Inl ex"
    by (simp add: sampleLibraryWith_def)
  then have d2: "offset (fromBER ?L2 (content ?sn)) = - 1 \<or>
         (\<exists>ex. newContentInfo ?L2 (result (fromBER ?L2 (content ?sn))) = Inl ex) \<or>
         (\<exists>contentInfo ex.
            newContentInfo ?L2 (result (fromBER ?L2 (content ?sn))) = Inr contentInfo \<and>
            newSignedData ?L2 contentInfo = Inl ex)"
    by blast
  have "\<exists>contentInfo ex.
            newContentInfo ?L3 (result (fromBER ?L3 (content ?sn))) = Inr contentInfo \<and>
            newSignedData ?L3 contentInfo = Inl ex"
    by (simp add: sampleLibraryWith_def)
  then have d3: "offset (fromBER ?L3 (content ?sn)) = - 1 \<or>
         (\<exists>ex. newContentInfo ?L3 (result (fromBER ?L3 (content ?sn))) = Inl ex) \<or>
         (\<exists>contentInfo ex.
            newContentInfo ?L3 (result (fromBER ?L3 (content ?sn))) = Inr contentInfo \<and>
            newSignedData ?L3 contentInfo = Inl ex)"
    by blast
  show ?thesis
    using undecodable_signature_gives_fraud_warning [OF v1 n1 d1, of "''id1''"]
      undecodable_signature_gives_fraud_warning [OF v2 n2 d2, of "''id1''"]
      undecodable_signature_gives_fraud_warning [OF v3 n3 d3, of "''id1''"]
    by (simp add: getResultPrototype_def)
qed

theorem well_formed_envelope_rejected_counterexample:
  "envelopeWellFormed_spec
     (node (sampleParser ''multipart/signed'' ''SHA-256'' ''a@example.com'' ''hello''))
     (getNode (sampleParser ''multipart/signed'' ''SHA-256'' ''a@example.com'' ''hello'') ''2'') \<and>
   offset (fromBER
     (sampleLibrary (sampleParser ''multipart/signed'' ''SHA-256'' ''a@example.com'' ''hello'')
        (- 1) (sampleSignedData [sampleCertificate ''a@example.com''] (Resolved (JBool True)))
        1550000000000)
     (content (samplePart ''application/pkcs7-signature'' ''0''))) = - 1 \<and>
   verifyMessageSignature
     (sampleLibrary (sampleParser ''multipart/signed'' ''SHA-256'' ''a@example.com'' ''hello'')
        (- 1) (sampleSignedData [sampleCertificate ''a@example.com''] (Resolved (JBool True)))
        1550000000000)
     sampleConstants ''message'' ''id1'' =
   Inr \<lparr>mailId = ''id1'', success = False, code = CANNOT_VERIFY,
        message = ''Message is not digitally signed.'', signer = JStr ''''\<rparr>"
proof -
  let ?P = "sampleParser ''multipart/signed'' ''SHA-256'' ''a@example.com'' ''hello''"
  let ?cms = "sampleSignedData [sampleCertificate ''a@example.com''] (Resolved (JBool True))"
  let ?L = "sampleLibrary ?P (- 1) ?cms 1550000000000"
  have 1: "envelopeWellFormed_spec (node ?P) (getNode ?P ''2'')"
    by (simp add: envelopeWellFormed_spec_def toLowerCase_def getNode_def sampleParser_def
        sampleRoot_def samplePart_def)
  have 2: "offset (fromBER ?L (content (samplePart ''application/pkcs7-signature'' ''0''))) = - 1"
    by (simp add: sampleLibrary_def)
  have "isValidSmimeEmail sampleConstants (node (mimeParse ?L ''message''))
          (getNode (mimeParse ?L ''message'') ''2'') = Inr False"
    by (simp add: sample_defs envelope_defs)
  then have 3: "verifyMessageSignature ?L sampleConstants ''message'' ''id1'' =
      Inr \<lparr>mailId = ''id1'', success = False, code = CANNOT_VERIFY,
        message = ''Message is not digitally signed.'', signer = JStr ''''\<rparr>"
    by (simp add: verifyMessageSignature_unsigned getResultPrototype_def)
  from 1 2 3 show ?thesis by blast
qed

text \<open>
  Claim C10. Only the value \<open>false\<close> counts as a failed verification. When \<open>verify\<close> resolves
  with \<open>undefined\<close>, the comparison with the From address decides the result, which is
  \<open>VERIFICATION_OK\<close> with \<open>success = true\<close> when the addresses agree.
\<close>

theorem undefined_verification_result_is_not_a_failure:
  assumes "verificationReached L C rawMessage cms email node1"
    and "verify cms 0 (replace_LF_by_CRLF (raw node1)) False = Inr (Resolved JUndefined)"
  shows "(\<forall>v. isVerificationFailed v \<longleftrightarrow> v = JBool False) \<and>
         verifyMessageSignature L C rawMessage mid =
           Inr (case isFromAddressCorrect (mimeParse L rawMessage) email of
                  Inr True \<Rightarrow>
                    getResultPrototype\<lparr>mailId := mid, signer := email, success := True,
                      code := VERIFICATION_OK,
                      message := ''Message includes a valid digital signature for the sender.''\<rparr>
                | Inr False \<Rightarrow>
                    getResultPrototype\<lparr>mailId := mid, signer := email, success := False,
                      code := FRAUD_WARNING, message := message_from_mismatch\<rparr>
                | Inl ex \<Rightarrow>
                    getResultPrototype\<lparr>mailId := mid, signer := email, success := False,
                      code := CANNOT_VERIFY,
                      message := ''Message cannot be verified: Unknown error.''\<rparr>)"
  unfolding verifyMessageSignature_verified [OF assms]
  by (simp add: verificationHandlers_def isVerificationFailed_iff Let_def
      split: sum.splits bool.splits)

theorem undefined_verification_result_is_not_a_failure_witness:
  "verifyMessageSignature
     (sampleLibrary (sampleParser ''multipart/signed'' ''sha-256'' ''a@example.com'' ''hello'') 1
        (sampleSignedData [sampleCertificate ''a@example.com''] (Resolved JUndefined))
        1550000000000)
     sampleConstants ''message'' ''id1'' =
   Inr \<lparr>mailId = ''id1'', success = True, code = VERIFICATION_OK,
        message = ''Message includes a valid digital signature for the sender.'',
        signer = JStr ''a@example.com''\<rparr>"
proof -
  let ?cms = "sampleSignedData [sampleCertificate ''a@example.com''] (Resolved JUndefined)"
  let ?L = "sampleLibrary (sampleParser ''multipart/signed'' ''sha-256'' ''a@example.com'' ''hello'')
              1 ?cms 1550000000000"
  have 1: "verificationReached ?L sampleConstants ''message'' ?cms (JStr ''a@example.com'')
             (samplePart ''text/plain'' ''hello'')"
    by (rule sample_reached) (rule sample_certificates)
  have 2: "verify ?cms 0 (replace_LF_by_CRLF (raw (samplePart ''text/plain'' ''hello''))) False
             = Inr (Resolved JUndefined)"
    by (rule sample_verify)
  show ?thesis
    using undefined_verification_result_is_not_a_failure [OF 1 2, of "''id1''"]
    by (simp add: sample_from getResultPrototype_def)
qed

lemma array_indexOf_from_found:
  "array_indexOf_from i xs v \<noteq> - 1 \<longleftrightarrow> v \<in> set xs"
proof (induction xs arbitrary: i)
  case Nil
  then show ?case by simp
next
  case (Cons x xs)
  then show ?case by auto
qed

lemma array_indexOf_found: "array_indexOf xs v \<noteq> - 1 \<longleftrightarrow> v \<in> JStr ` set xs"
  by (simp add: array_indexOf_def array_indexOf_from_found)

text \<open>
  The envelope check passes exactly when the root node has a content type with parameters, is
  a multipart container, the signature node exists, the content type of the root node occurs
  in \<open>rootNodeContentTypeValue\<close> as a substring, the protocol parameter equals the constant,
  the micalg parameter is in the table, and the content type of the signature node is in its
  table.
\<close>

lemma string_indexOf_from_found:
  "string_indexOf_from i s v \<noteq> - 1 \<longleftrightarrow> sublist v s"
proof (induction s arbitrary: i)
  case Nil
  then show ?case by simp
next
  case (Cons c s)
  then show ?case by (simp add: sublist_Cons_right)
qed

lemma string_indexOf_found: "string_indexOf s v \<noteq> - 1 \<longleftrightarrow> (\<exists>a b. s = a @ v @ b)"
  by (simp add: string_indexOf_def string_indexOf_from_found sublist_def)

lemma isValidSmimeEmail_iff:
  "isValidSmimeEmail C rootNode signatureNode = Inr True \<longleftrightarrow>
     (\<exists>ct ps sn sct.
        contentType rootNode = Some ct \<and> params ct = Some ps \<and> childNodes rootNode \<noteq> None \<and>
        signatureNode = Some sn \<and>
        (\<exists>a b. rootNodeContentTypeValue C = a @ ctvalue ct @ b) \<and>
        ps ''protocol'' = Some (rootNodeContentTypeProtocol C) \<and>
        (\<exists>alg \<in> set (rootNodeContentTypeMessageIntegrityCheckAlgorithms C).
           ps ''micalg'' = Some alg) \<and>
        contentType sn = Some sct \<and> ctvalue sct \<in> set (signatureNodeContentTypeValues C))"
  unfolding isValidSmimeEmail_def js_and_def isRootNodeContentTypeValueCorrect_def
    isRootNodeContentTypeProtocolCorrect_def isRootNodeContentTypeMicalgCorrect_def
    isSignatureNodeContentTypeValueCorrect_def string_indexOf_found
    getProperty_def optionalString_def
  by (auto simp: array_indexOf_def array_indexOf_from_found split: option.splits bool.splits sum.splits)

lemma fetchSignerEmail_two_certificates:
  "fetchSignerEmail sampleConstants
     (sampleSignedData [sampleCertificate first, sampleCertificate second] outcome)
   = Inr (JStr second)"
  by (simp add: fetchSignerEmail_def sample_defs)

text \<open>
  Claim C1, evaluated where the code departs from it. The signed data hold two certificates;
  the first has the e-mail attribute \<open>mallory@example.com\<close>, the second
  \<open>ceo@example.com\<close>, and the From header names \<open>ceo@example.com\<close>. The claim compares
  the From address with the attribute of the first certificate, which differs, and asks for
  \<open>FRAUD_WARNING\<close>. \<open>fetchSignerEmail\<close> keeps the attribute it visits last, that of the
  second certificate, and the result is \<open>VERIFICATION_OK\<close>.
\<close>

theorem signer_email_of_last_certificate_is_compared:
  "verifyMessageSignature
     (sampleLibrary (sampleParser ''multipart/signed'' ''sha-256'' ''ceo@example.com'' ''hello'') 1
        (sampleSignedData [sampleCertificate ''mallory@example.com'',
                           sampleCertificate ''ceo@example.com''] (Resolved (JBool True)))
        1550000000000)
     sampleConstants ''message'' ''id1'' =
   Inr \<lparr>mailId = ''id1'', success = True, code = VERIFICATION_OK,
        message = ''Message includes a valid digital signature for the sender.'',
        signer = JStr ''ceo@example.com''\<rparr>"
proof -
  let ?cms = "sampleSignedData [sampleCertificate ''mallory@example.com'',
                sampleCertificate ''ceo@example.com''] (Resolved (JBool True))"
  let ?L = "sampleLibrary (sampleParser ''multipart/signed'' ''sha-256'' ''ceo@example.com'' ''hello'')
              1 ?cms 1550000000000"
  have "isValidSmimeEmail sampleConstants (node (mimeParse ?L ''message''))
          (getNode (mimeParse ?L ''message'') ''2'') = Inr True"
    by (rule sample_envelope_valid)
  moreover have "decodeSignature ?L sampleConstants (getNode (mimeParse ?L ''message'') ''2'')
          = Inr (?cms, JStr ''ceo@example.com'')"
    using fetchSignerEmail_two_certificates [of "''mallory@example.com''" "''ceo@example.com''"]
    by (simp add: decodeSignature_def getAsn1TypeFromBuffer_def getSignedDataFromAsn1_def
        getNode_def sampleLibrary_def sampleParser_def)
  moreover have "isAnyCertificateExpired sampleConstants (now ?L) ?cms = Inr False"
    by (simp add: isAnyCertificateExpired_def sample_defs)
  moreover have "nodes (mimeParse ?L ''message'') ''node1'' = Some (samplePart ''text/plain'' ''hello'')"
    by (simp add: sample_defs)
  ultimately have "verificationReached ?L sampleConstants ''message'' ?cms (JStr ''ceo@example.com'')
          (samplePart ''text/plain'' ''hello'')"
    by (simp add: verificationReached_def)
  then show ?thesis
    by (simp add: verifyMessageSignature_called sample_verify verificationHandlers_def
        isVerificationFailed_iff sample_from getResultPrototype_def)
qed

text \<open>
  Claim C4, evaluated where the code departs from it. The root content type is
  \<open>multipart\<close>, not \<open>multipart/signed\<close>, so the claim asks for \<open>CANNOT_VERIFY\<close>. The
  constant \<open>rootNodeContentTypeValue\<close> is a string, \<open>indexOf\<close> on it searches for a substring,
  the envelope check passes and the message is verified.
\<close>

theorem substring_of_root_content_type_passes_envelope_check:
  "verifyMessageSignature
     (sampleLibrary (sampleParser ''multipart'' ''sha-256'' ''a@example.com'' ''hello'') 1
        (sampleSignedData [sampleCertificate ''a@example.com''] (Resolved (JBool True)))
        1550000000000)
     sampleConstants ''message'' ''id1'' =
   Inr \<lparr>mailId = ''id1'', success = True, code = VERIFICATION_OK,
        message = ''Message includes a valid digital signature for the sender.'',
        signer = JStr ''a@example.com''\<rparr>"
proof -
  let ?cms = "sampleSignedData [sampleCertificate ''a@example.com''] (Resolved (JBool True))"
  let ?L = "sampleLibrary (sampleParser ''multipart'' ''sha-256'' ''a@example.com'' ''hello'') 1
              ?cms 1550000000000"
  have "isValidSmimeEmail sampleConstants (node (mimeParse ?L ''message''))
          (getNode (mimeParse ?L ''message'') ''2'') = Inr True"
    by (simp add: sample_defs envelope_defs)
  moreover have "decodeSignature ?L sampleConstants (getNode (mimeParse ?L ''message'') ''2'')
          = Inr (?cms, JStr ''a@example.com'')"
    by (rule sample_decoded) (rule sample_certificates)
  moreover have "isAnyCertificateExpired sampleConstants (now ?L) ?cms = Inr False"
    by (simp add: isAnyCertificateExpired_def sample_defs)
  moreover have "nodes (mimeParse ?L ''message'') ''node1'' = Some (samplePart ''text/plain'' ''hello'')"
    by (simp add: sample_defs)
  ultimately have "verificationReached ?L sampleConstants ''message'' ?cms (JStr ''a@example.com'')
          (samplePart ''text/plain'' ''hello'')"
    by (simp add: verificationReached_def)
  then show ?thesis
    by (simp add: verifyMessageSignature_called sample_verify verificationHandlers_def
        isVerificationFailed_iff sample_from getResultPrototype_def)
qed

text \<open>
  Claim C8, amended. The micalg check passes exactly when the parameter \<open>micalg\<close> is present and
  equal, character by character, to one of the seven names of the table. The comparison is
  case-sensitive: \<open>SHA-256\<close> is rejected, as the counterexample shows.
\<close>

theorem micalg_check_is_case_sensitive:
  assumes "contentType rootNode = Some ct" and "params ct = Some ps"
  shows "isRootNodeContentTypeMicalgCorrect (smimeSpecification emailType marginHours) rootNode =
           Inr (\<exists>a \<in> set [''md5'', ''sha-1'', ''sha-224'', ''sha-256'', ''sha-384'', ''sha-512'',
                            ''unknown'']. ps ''micalg'' = Some a)"
  using assms
  by (simp only: isRootNodeContentTypeMicalgCorrect_def array_indexOf_found option.case
        smimeSpecification_def smimeSpecificationConstants.simps getProperty_def optionalString_def)
     (auto split: option.splits)

theorem micalg_check_is_case_sensitive_witness:
  "isRootNodeContentTypeMicalgCorrect sampleConstants
     (sampleRoot ''multipart/signed'' ''sha-256'' ''a@example.com'' []) = Inr True"
proof -
  let ?ps = "[''protocol'' \<mapsto> ''application/pkcs7-signature'', ''micalg'' \<mapsto> ''sha-256'',
              ''boundary'' \<mapsto> ''b'']"
  let ?ct = "\<lparr>ctvalue = ''multipart/signed'', params = Some ?ps\<rparr>"
  have 1: "contentType (sampleRoot ''multipart/signed'' ''sha-256'' ''a@example.com'' []) = Some ?ct"
    by (simp add: sampleRoot_def)
  have 2: "params ?ct = Some ?ps"
    by simp
  show ?thesis
    using micalg_check_is_case_sensitive [OF 1 2, of "''1.2.840.113549.1.9.1''" 1]
    by (simp add: sampleConstants_def)
qed

theorem uppercase_micalg_counterexample:
  "isRootNodeContentTypeMicalgCorrect sampleConstants
     (sampleRoot ''multipart/signed'' ''SHA-256'' ''a@example.com'' []) = Inr False"
  by (simp add: sample_defs envelope_defs)

lemma replace_LF_by_CRLF_append:
  "replace_LF_by_CRLF (s @ t) = replace_LF_by_CRLF s @ replace_LF_by_CRLF t"
  by (simp add: replace_LF_by_CRLF_def)

lemma replace_LF_by_CRLF_line:
  "CHR 0x0A \<notin> set l \<Longrightarrow> replace_LF_by_CRLF l = l"
  unfolding replace_LF_by_CRLF_def by (induction l) auto

lemma replace_LF_by_CRLF_joinLines:
  "\<forall>l \<in> set ls. CHR 0x0A \<notin> set l \<Longrightarrow>
     replace_LF_by_CRLF (joinLines [CHR 0x0A] ls) = joinLines [CHR 0x0D, CHR 0x0A] ls"
proof (induction "[CHR 0x0A]" ls rule: joinLines.induct)
  case 1
  then show ?case by (simp add: replace_LF_by_CRLF_def)
next
  case (2 l)
  then show ?case by (simp add: replace_LF_by_CRLF_line)
next
  case (3 l m ls)
  then show ?case
    by (simp add: replace_LF_by_CRLF_append replace_LF_by_CRLF_line)
       (simp add: replace_LF_by_CRLF_def)
qed

lemma lines_exist: "\<exists>ls. s = joinLines [CHR 0x0A] ls \<and> (\<forall>l \<in> set ls. CHR 0x0A \<notin> set l)"
proof (induction s)
  case Nil
  have "[] = joinLines [CHR 0x0A] [] \<and> (\<forall>l \<in> set ([] :: string list). CHR 0x0A \<notin> set l)"
    by simp
  then show ?case by blast
next
  case (Cons c s)
  then obtain ls where ls: "s = joinLines [CHR 0x0A] ls" "\<forall>l \<in> set ls. CHR 0x0A \<notin> set l"
    by blast
  show ?case
  proof (cases "c = CHR 0x0A")
    case True
    show ?thesis
    proof (cases ls)
      case Nil
      with ls True have "c # s = joinLines [CHR 0x0A] [[], []]" by simp
      then show ?thesis by (intro exI [of _ "[[], []]"]) simp
    next
      case (Cons l ls')
      with ls True have "c # s = joinLines [CHR 0x0A] ([] # ls)" by simp
      with ls show ?thesis by (intro exI [of _ "[] # ls"]) simp
    qed
  next
    case False
    show ?thesis
    proof (cases ls)
      case Nil
      with ls False have "c # s = joinLines [CHR 0x0A] [[c]]" by simp
      with False show ?thesis by (intro exI [of _ "[[c]]"]) simp
    next
      case (Cons l ls')
      with ls have "c # s = joinLines [CHR 0x0A] ((c # l) # ls')"
        by (cases ls') simp_all
      with ls False Cons show ?thesis by (intro exI [of _ "(c # l) # ls'"]) simp
    qed
  qed
qed

lemma joinLines_Cons:
  "ls \<noteq> [] \<Longrightarrow> joinLines sep (l # ls) = l @ sep @ joinLines sep ls"
  by (cases ls) simp_all

lemma joinLines_Cons_Cons: "joinLines sep ((c # l) # ls) = c # joinLines sep (l # ls)"
  by (cases ls) simp_all

lemma splitLines_not_empty: "splitLines w \<noteq> []"
  by (induction w rule: splitLines.induct) (auto split: list.splits)

lemma splitLines_lines: "\<forall>l \<in> set (splitLines w). CHR 0x0A \<notin> set l"
  by (induction w rule: splitLines.induct) (auto split: list.splits)

lemma joinLines_splitLines:
  "usesCRLF w \<Longrightarrow> joinLines [CHR 0x0D, CHR 0x0A] (splitLines w) = w"
proof (induction w rule: splitLines.induct)
  case 1
  then show ?case by simp
next
  case (2 c)
  then show ?case by simp
next
  case (3 c d s)
  show ?case
  proof (cases "c = CHR 0x0D \<and> d = CHR 0x0A")
    case True
    with 3 show ?thesis
      by (simp add: joinLines_Cons splitLines_not_empty)
  next
    case False
    with "3.prems" have c: "c \<noteq> CHR 0x0A" and d: "d \<noteq> CHR 0x0A" and rest: "usesCRLF (d # s)"
      by (auto split: if_splits)
    obtain l ls where split: "splitLines (d # s) = l # ls"
      using splitLines_not_empty [of "d # s"] by (cases "splitLines (d # s)") auto
    from "3.IH"(3) [OF False c rest] split
    have "joinLines [CHR 0x0D, CHR 0x0A] ((c # l) # ls) = c # d # s"
      by (simp add: joinLines_Cons_Cons)
    moreover from False c split
    have "splitLines (c # d # s) = (c # l) # ls"
      by simp
    ultimately show ?thesis by simp
  qed
qed

lemma usesCRLF_Cons:
  "c \<noteq> CHR 0x0A \<Longrightarrow> t = [] \<or> hd t \<noteq> CHR 0x0A \<Longrightarrow> usesCRLF t \<Longrightarrow> usesCRLF (c # t)"
  by (cases t) auto

lemma replace_LF_by_CRLF_Cons:
  "replace_LF_by_CRLF (c # s) =
     (if c = CHR 0x0A then CHR 0x0D # CHR 0x0A # replace_LF_by_CRLF s
      else c # replace_LF_by_CRLF s)"
  by (simp add: replace_LF_by_CRLF_def)

lemma replace_LF_by_CRLF_usesCRLF:
  "usesCRLF (replace_LF_by_CRLF s) \<and>
   (replace_LF_by_CRLF s = [] \<or> hd (replace_LF_by_CRLF s) \<noteq> CHR 0x0A)"
proof (induction s)
  case Nil
  then show ?case by (simp add: replace_LF_by_CRLF_def)
next
  case (Cons c s)
  show ?case
  proof (cases "c = CHR 0x0A")
    case True
    with Cons show ?thesis
      by (simp add: replace_LF_by_CRLF_Cons)
  next
    case False
    from Cons have "usesCRLF (c # replace_LF_by_CRLF s)"
      using False by (intro usesCRLF_Cons) simp_all
    with False show ?thesis
      by (simp add: replace_LF_by_CRLF_Cons)
  qed
qed

text \<open>
  Claim C7. The text passed to \<open>verify\<close> is the raw text of node 1 with every line feed
  replaced by carriage return, line feed, and in it every line feed follows a carriage
  return, whatever the raw text is. When the raw text is what the parser keeps of a text
  \<open>w\<close>, its lines joined by line feeds, \<open>verify\<close> receives these lines joined by carriage
  return, line feed; and when \<open>w\<close> already uses carriage return, line feed, \<open>verify\<close>
  receives \<open>w\<close> itself, unchanged.
\<close>

theorem line_terminators_canonicalized_to_CRLF:
  assumes "verificationReached L C rawMessage cms email node1"
  shows "verifyMessageSignature L C rawMessage mid =
           (case verify cms 0 (replace_LF_by_CRLF (raw node1)) False of
              Inl ex \<Rightarrow> Inl ex
            | Inr p \<Rightarrow>
                Inr (verificationHandlers (mimeParse L rawMessage) email
                       (getResultPrototype\<lparr>mailId := mid\<rparr>) p)) \<and>
         usesCRLF (replace_LF_by_CRLF (raw node1)) \<and>
         (\<forall>w. raw node1 = joinLines [CHR 0x0A] (splitLines w) \<longrightarrow>
              replace_LF_by_CRLF (raw node1) = joinLines [CHR 0x0D, CHR 0x0A] (splitLines w) \<and>
              (usesCRLF w \<longrightarrow> replace_LF_by_CRLF (raw node1) = w))"
proof (intro conjI allI impI)
  show "verifyMessageSignature L C rawMessage mid =
           (case verify cms 0 (replace_LF_by_CRLF (raw node1)) False of
              Inl ex \<Rightarrow> Inl ex
            | Inr p \<Rightarrow>
                Inr (verificationHandlers (mimeParse L rawMessage) email
                       (getResultPrototype\<lparr>mailId := mid\<rparr>) p))"
    by (rule verifyMessageSignature_called [OF assms])
  show "usesCRLF (replace_LF_by_CRLF (raw node1))"
    using replace_LF_by_CRLF_usesCRLF by blast
next
  fix w
  assume w: "raw node1 = joinLines [CHR 0x0A] (splitLines w)"
  then show joined:
    "replace_LF_by_CRLF (raw node1) = joinLines [CHR 0x0D, CHR 0x0A] (splitLines w)"
    by (simp add: replace_LF_by_CRLF_joinLines [OF splitLines_lines])
  assume "usesCRLF w"
  then show "replace_LF_by_CRLF (raw node1) = w"
    by (simp add: joined joinLines_splitLines)
qed

theorem line_terminators_canonicalized_to_CRLF_witness:
  "verifyMessageSignature
     (sampleLibrary
        (sampleParser ''multipart/signed'' ''sha-256'' ''a@example.com'' [CHR ''a'', CHR 0x0A, CHR ''b''])
        1 (sampleSignedDataOver [sampleCertificate ''a@example.com'']
             [CHR ''a'', CHR 0x0D, CHR 0x0A, CHR ''b''])
        1550000000000)
     sampleConstants ''message'' ''id1'' =
   Inr \<lparr>mailId = ''id1'', success = True, code = VERIFICATION_OK,
        message = ''Message includes a valid digital signature for the sender.'',
        signer = JStr ''a@example.com''\<rparr> \<and>
   replace_LF_by_CRLF (raw (samplePart ''text/plain'' [CHR ''a'', CHR 0x0A, CHR ''b'']))
     = [CHR ''a'', CHR 0x0D, CHR 0x0A, CHR ''b'']"
proof -
  let ?w = "[CHR ''a'', CHR 0x0D, CHR 0x0A, CHR ''b'']"
  let ?n1 = "samplePart ''text/plain'' [CHR ''a'', CHR 0x0A, CHR ''b'']"
  let ?cms = "sampleSignedDataOver [sampleCertificate ''a@example.com''] ?w"
  let ?L = "sampleLibrary
              (sampleParser ''multipart/signed'' ''sha-256'' ''a@example.com''
                 [CHR ''a'', CHR 0x0A, CHR ''b''])
              1 ?cms 1550000000000"
  have 1: "verificationReached ?L sampleConstants ''message'' ?cms (JStr ''a@example.com'') ?n1"
    by (rule sample_reached) (rule sample_certificates)
  have 2: "raw ?n1 = joinLines [CHR 0x0A] (splitLines ?w)"
    by (simp add: samplePart_def)
  have 3: "usesCRLF ?w"
    by simp
  note canonical = line_terminators_canonicalized_to_CRLF [OF 1, of "''id1''"]
  from canonical have "\<forall>w. raw ?n1 = joinLines [CHR 0x0A] (splitLines w) \<longrightarrow>
      replace_LF_by_CRLF (raw ?n1) = joinLines [CHR 0x0D, CHR 0x0A] (splitLines w) \<and>
      (usesCRLF w \<longrightarrow> replace_LF_by_CRLF (raw ?n1) = w)"
    by (elim conjE)
  then have "raw ?n1 = joinLines [CHR 0x0A] (splitLines ?w) \<longrightarrow>
      replace_LF_by_CRLF (raw ?n1) = joinLines [CHR 0x0D, CHR 0x0A] (splitLines ?w) \<and>
      (usesCRLF ?w \<longrightarrow> replace_LF_by_CRLF (raw ?n1) = ?w)"
    by (rule spec)
  from this 2 have "replace_LF_by_CRLF (raw ?n1) = joinLines [CHR 0x0D, CHR 0x0A] (splitLines ?w) \<and>
      (usesCRLF ?w \<longrightarrow> replace_LF_by_CRLF (raw ?n1) = ?w)"
    by (rule mp)
  then have "usesCRLF ?w \<longrightarrow> replace_LF_by_CRLF (raw ?n1) = ?w"
    by (rule conjunct2)
  from this 3 have passed: "replace_LF_by_CRLF (raw ?n1) = ?w"
    by (rule mp)
  from canonical have "verifyMessageSignature ?L sampleConstants ''message'' ''id1'' =
           (case verify ?cms 0 (replace_LF_by_CRLF (raw ?n1)) False of
              Inl ex \<Rightarrow> Inl ex
            | Inr p \<Rightarrow>
                Inr (verificationHandlers (mimeParse ?L ''message'') (JStr ''a@example.com'')
                       (getResultPrototype\<lparr>mailId := ''id1''\<rparr>) p))"
    by (rule conjunct1)
  then have "verifyMessageSignature ?L sampleConstants ''message'' ''id1'' =
           (case verify ?cms 0 ?w False of
              Inl ex \<Rightarrow> Inl ex
            | Inr p \<Rightarrow>
                Inr (verificationHandlers (mimeParse ?L ''message'') (JStr ''a@example.com'')
                       (getResultPrototype\<lparr>mailId := ''id1''\<rparr>) p))"
    by (simp only: passed)
  with passed show ?thesis
    by (simp add: sample_verify verificationHandlers_def isVerificationFailed_iff sample_from
        getResultPrototype_def)
qed

lemma sample_reached_without_email:
  assumes "certificates cms = Some [sampleCertificateWithoutEmail]"
  shows "verificationReached
           (sampleLibrary (sampleParser ''multipart/signed'' ''sha-256'' fromAddress body) 1 cms
              1550000000000)
           sampleConstants rawMessage cms JNull (samplePart ''text/plain'' body)"
  unfolding verificationReached_def
proof (intro conjI)
  show "decodeSignature
          (sampleLibrary (sampleParser ''multipart/signed'' ''sha-256'' fromAddress body) 1 cms
             1550000000000) sampleConstants
          (getNode (mimeParse (sampleLibrary (sampleParser ''multipart/signed'' ''sha-256''
             fromAddress body) 1 cms 1550000000000) rawMessage) ''2'') = Inr (cms, JNull)"
    using assms
    by (simp add: decode_defs sampleLibrary_def sampleParser_def samplePart_def
        sampleConstants_def smimeSpecification_def sampleCertificateWithoutEmail_def)
  show "isAnyCertificateExpired sampleConstants
          (now (sampleLibrary (sampleParser ''multipart/signed'' ''sha-256'' fromAddress body) 1 cms
                  1550000000000)) cms = Inr False"
    using assms
    by (simp add: isAnyCertificateExpired_def sampleLibrary_def sampleConstants_def
        smimeSpecification_def sampleCertificateWithoutEmail_def)
  show "nodes (mimeParse (sampleLibrary (sampleParser ''multipart/signed'' ''sha-256'' fromAddress
                 body) 1 cms 1550000000000) rawMessage) ''node1''
          = Some (samplePart ''text/plain'' body)"
    by (simp add: sample_defs)
qed (rule sample_envelope_valid)

lemma sample_from_null:
  "isFromAddressCorrect
     (mimeParse (sampleLibrary (sampleParser ctv micalg fromAddress body) off cms t) rawMessage)
     JNull = Inr False"
  by (simp add: isFromAddressCorrect_def sample_defs optionalString_def)

lemma verifyMessageSignature_cases:
  assumes "verifyMessageSignature L C rawMessage mid = Inr r"
  obtains
    (unsigned) "r = getResultPrototype\<lparr>mailId := mid, success := False, code := CANNOT_VERIFY,
                  message := ''Message is not digitally signed.''\<rparr>"
  | (undecodable) "r = getResultPrototype\<lparr>mailId := mid, success := False,
                  code := FRAUD_WARNING, message := ''Fraud warning: Invalid digital signature.''\<rparr>"
  | (expired) "r = getResultPrototype\<lparr>mailId := mid, success := False, code := FRAUD_WARNING,
                  message := message_expired\<rparr>"
  | (verified) cms email node1 p where
      "verificationReached L C rawMessage cms email node1"
      "verify cms 0 (replace_LF_by_CRLF (raw node1)) False = Inr p"
      "r = verificationHandlers (mimeParse L rawMessage) email
             (getResultPrototype\<lparr>mailId := mid\<rparr>) p"
  using assms unfolding verifyMessageSignature_def verificationReached_def Let_def
  by (auto split: sum.splits bool.splits option.splits prod.splits)

text \<open>
  \<open>fetchSignerEmail\<close> returns the value of the last attribute of the e-mail type over the
  subjects of all certificates, and \<open>null\<close> when there is none.
\<close>

lemma fold_last_match:
  "fold (\<lambda>tv signerEmail. if atype tv = t then avalue tv else signerEmail) tvs e =
     (if filter (\<lambda>tv. atype tv = t) tvs = [] then e
      else avalue (last (filter (\<lambda>tv. atype tv = t) tvs)))"
  by (induction tvs arbitrary: e) auto

lemma fold_subjects:
  "fold (\<lambda>cert signerEmail. fold f (subject cert) signerEmail) certs e =
     fold f (concat (map subject certs)) e"
  by (induction certs arbitrary: e) auto

lemma fetchSignerEmail_last:
  assumes "certificates sd = Some certs"
  shows "fetchSignerEmail C sd =
     Inr (if filter (\<lambda>tv. atype tv = certificateTypeForSignerEmail C)
               (concat (map subject certs)) = [] then JNull
          else avalue (last (filter (\<lambda>tv. atype tv = certificateTypeForSignerEmail C)
               (concat (map subject certs)))))"
  using assms by (simp add: fetchSignerEmail_def fold_subjects fold_last_match)

lemma decodeSignature_fetched:
  assumes "decodeSignature L C sn = Inr (cms, email)"
  shows "fetchSignerEmail C cms = Inr email"
  using assms
  by (auto simp: decodeSignature_def Let_def split: option.splits sum.splits)

lemma decodeSignature_signer:
  assumes "decodeSignature L C sn = Inr (cms, email)"
  shows "\<exists>certs. certificates cms = Some certs \<and>
           email = (if filter (\<lambda>tv. atype tv = certificateTypeForSignerEmail C)
                         (concat (map subject certs)) = [] then JNull
                    else avalue (last (filter (\<lambda>tv. atype tv = certificateTypeForSignerEmail C)
                         (concat (map subject certs)))))"
proof -
  note fetched = decodeSignature_fetched [OF assms]
  then obtain certs where certs: "certificates cms = Some certs"
    by (auto simp: fetchSignerEmail_def split: option.splits)
  with fetched fetchSignerEmail_last [OF certs, of C] show ?thesis
    by simp
qed

lemma isFromAddressCorrect_true:
  assumes "isFromAddressCorrect parser email = Inr True"
  shows "\<exists>h hs fromNode rest. headers (node parser) ''from'' = Some (h # hs) \<and>
           hvalue h = fromNode # rest \<and> email = optionalString (address fromNode)"
  using assms
  by (auto simp: isFromAddressCorrect_def split: option.splits list.splits)

text \<open>
  Claim C6, amended. In every returned result, \<open>success\<close> implies the code
  \<open>VERIFICATION_OK\<close>. On \<open>VERIFICATION_OK\<close> and on the \<open>FRAUD_WARNING\<close> results for a failed
  signature and for a From address that does not match, the signer is the value that
  \<open>fetchSignerEmail\<close> returned: the value of the last attribute of the e-mail type over the
  subjects of all certificates, and \<open>null\<close> when no certificate has one. On
  \<open>VERIFICATION_OK\<close> the signer is moreover strictly equal to the address of the first mailbox
  of the first From header. The signer keeps its empty default on the structural rejection,
  on an undecodable signature and on an expired certificate. The counterexample has four
  messages: one whose certificate is not yet valid, where the signature decoded and the
  signer address was fetched, yet the \<open>FRAUD_WARNING\<close> result has an empty signer; one with
  a failed signature and one with a From address that does not match, both signed with a
  certificate without e-mail attribute, where the signer is \<open>null\<close>; and one whose e-mail
  attribute and From address are both the empty string, where the result is
  \<open>VERIFICATION_OK\<close> with an empty signer.
\<close>

theorem signer_field_of_result:
  assumes "verifyMessageSignature L C rawMessage mid = Inr r"
  shows "(success r \<longrightarrow> code r = VERIFICATION_OK) \<and>
         (code r = VERIFICATION_OK \<or>
          message r = ''Fraud warning: Message failed verification with signature.'' \<or>
          message r = message_from_mismatch \<longrightarrow>
            (\<exists>cms certs.
               decodeSignature L C (getNode (mimeParse L rawMessage) ''2'') = Inr (cms, signer r) \<and>
               certificates cms = Some certs \<and>
               signer r =
                 (if filter (\<lambda>tv. atype tv = certificateTypeForSignerEmail C)
                       (concat (map subject certs)) = [] then JNull
                  else avalue (last (filter (\<lambda>tv. atype tv = certificateTypeForSignerEmail C)
                       (concat (map subject certs))))))) \<and>
         (code r = VERIFICATION_OK \<longrightarrow>
            (\<exists>h hs fromNode rest.
               headers (node (mimeParse L rawMessage)) ''from'' = Some (h # hs) \<and>
               hvalue h = fromNode # rest \<and>
               signer r = optionalString (address fromNode))) \<and>
         (message r = ''Message is not digitally signed.'' \<or>
          message r = ''Fraud warning: Invalid digital signature.'' \<or>
          message r = message_expired \<longrightarrow> signer r = JStr '''')"
  using assms
proof (cases rule: verifyMessageSignature_cases)
  case unsigned
  then show ?thesis
    by (simp add: getResultPrototype_def codes_distinct
            message_expired_def message_from_mismatch_def)
next
  case undecodable
  then show ?thesis
    by (simp add: getResultPrototype_def codes_distinct
            message_expired_def message_from_mismatch_def)
next
  case expired
  then show ?thesis
    by (simp add: getResultPrototype_def codes_distinct
            message_expired_def message_from_mismatch_def)
next
  case (verified cms email node1 p)
  then have dec: "decodeSignature L C (getNode (mimeParse L rawMessage) ''2'') = Inr (cms, email)"
    by (simp add: verificationReached_def)
  from decodeSignature_signer [OF dec]
  have fetched: "\<exists>cms certs.
      decodeSignature L C (getNode (mimeParse L rawMessage) ''2'') = Inr (cms, email) \<and>
      certificates cms = Some certs \<and>
      email = (if filter (\<lambda>tv. atype tv = certificateTypeForSignerEmail C)
                    (concat (map subject certs)) = [] then JNull
               else avalue (last (filter (\<lambda>tv. atype tv = certificateTypeForSignerEmail C)
                    (concat (map subject certs)))))"
    using dec by blast
  show ?thesis
  proof (cases p)
    case (Rejected error)
    with verified(3) show ?thesis
      by (simp add: verificationHandlers_def getResultPrototype_def codes_distinct
            message_expired_def message_from_mismatch_def)
  next
    case (Resolved v)
    show ?thesis
    proof (cases "isVerificationFailed v")
      case True
      with verified(3) Resolved have r: "r = getResultPrototype\<lparr>mailId := mid, signer := email,
          success := False, code := FRAUD_WARNING,
          message := ''Fraud warning: Message failed verification with signature.''\<rparr>"
        by (simp add: verificationHandlers_def)
      have s: "signer r = email"
        by (simp add: r)
      show ?thesis
        unfolding s using fetched
        by (simp add: r getResultPrototype_def codes_distinct
            message_expired_def message_from_mismatch_def)
    next
      case False
      show ?thesis
      proof (cases "isFromAddressCorrect (mimeParse L rawMessage) email")
        case (Inl ex)
        with verified(3) Resolved False show ?thesis
          by (simp add: verificationHandlers_def getResultPrototype_def codes_distinct
            message_expired_def message_from_mismatch_def)
      next
        case (Inr ok)
        show ?thesis
        proof (cases ok)
          case True
          with verified(3) Resolved False Inr
          have r: "r = getResultPrototype\<lparr>mailId := mid, signer := email,
              success := True, code := VERIFICATION_OK,
              message := ''Message includes a valid digital signature for the sender.''\<rparr>"
            by (simp add: verificationHandlers_def)
          have s: "signer r = email"
            by (simp add: r)
          from Inr True have "isFromAddressCorrect (mimeParse L rawMessage) email = Inr True"
            by simp
          then have "\<exists>h hs fromNode rest.
               headers (node (mimeParse L rawMessage)) ''from'' = Some (h # hs) \<and>
               hvalue h = fromNode # rest \<and> email = optionalString (address fromNode)"
            by (rule isFromAddressCorrect_true)
          then show ?thesis
            unfolding s using fetched
            by (simp add: r getResultPrototype_def codes_distinct
              message_expired_def message_from_mismatch_def)
        next
          case no: False
          with verified(3) Resolved False Inr
          have r: "r = getResultPrototype\<lparr>mailId := mid, signer := email,
              success := False, code := FRAUD_WARNING, message := message_from_mismatch\<rparr>"
            by (simp add: verificationHandlers_def)
          have s: "signer r = email"
            by (simp add: r)
          show ?thesis
            unfolding s using fetched
            by (simp add: r getResultPrototype_def codes_distinct
              message_expired_def message_from_mismatch_def)
        qed
      qed
    qed
  qed
qed

theorem signer_field_of_result_witness:
  "verifyMessageSignature
     (sampleLibrary (sampleParser ''multipart/signed'' ''sha-256'' ''a@example.com'' ''hello'') 1
        (sampleSignedData [sampleCertificate ''a@example.com''] (Resolved (JBool True)))
        1550000000000)
     sampleConstants ''message'' ''id1'' =
   Inr \<lparr>mailId = ''id1'', success = True, code = VERIFICATION_OK,
        message = ''Message includes a valid digital signature for the sender.'',
        signer = JStr ''a@example.com''\<rparr> \<and>
   (\<exists>cms certs. decodeSignature
      (sampleLibrary (sampleParser ''multipart/signed'' ''sha-256'' ''a@example.com'' ''hello'') 1
        (sampleSignedData [sampleCertificate ''a@example.com''] (Resolved (JBool True)))
        1550000000000)
      sampleConstants
      (getNode (mimeParse
         (sampleLibrary (sampleParser ''multipart/signed'' ''sha-256'' ''a@example.com'' ''hello'') 1
            (sampleSignedData [sampleCertificate ''a@example.com''] (Resolved (JBool True)))
            1550000000000) ''message'') ''2'')
      = Inr (cms, JStr ''a@example.com'') \<and>
      certificates cms = Some certs \<and>
      JStr ''a@example.com'' =
        (if filter (\<lambda>tv. atype tv = certificateTypeForSignerEmail sampleConstants)
              (concat (map subject certs)) = [] then JNull
         else avalue (last (filter (\<lambda>tv. atype tv = certificateTypeForSignerEmail sampleConstants)
              (concat (map subject certs))))))"
proof -
  let ?cms = "sampleSignedData [sampleCertificate ''a@example.com''] (Resolved (JBool True))"
  let ?L = "sampleLibrary (sampleParser ''multipart/signed'' ''sha-256'' ''a@example.com'' ''hello'')
              1 ?cms 1550000000000"
  let ?r = "\<lparr>mailId = ''id1'', success = True, code = VERIFICATION_OK,
        message = ''Message includes a valid digital signature for the sender.'',
        signer = JStr ''a@example.com''\<rparr>"
  have "verificationReached ?L sampleConstants ''message'' ?cms (JStr ''a@example.com'')
          (samplePart ''text/plain'' ''hello'')"
    by (rule sample_reached) (rule sample_certificates)
  then have 1: "verifyMessageSignature ?L sampleConstants ''message'' ''id1'' = Inr ?r"
    by (simp add: verifyMessageSignature_called sample_verify verificationHandlers_def
        isVerificationFailed_iff sample_from getResultPrototype_def)
  have "code ?r = VERIFICATION_OK \<or>
          message ?r = ''Fraud warning: Message failed verification with signature.'' \<or>
          message ?r = message_from_mismatch"
    by simp
  with signer_field_of_result [OF 1, THEN conjunct2, THEN conjunct1]
  have "\<exists>cms certs.
      decodeSignature ?L sampleConstants (getNode (mimeParse ?L ''message'') ''2'')
        = Inr (cms, signer ?r) \<and>
      certificates cms = Some certs \<and>
      signer ?r =
        (if filter (\<lambda>tv. atype tv = certificateTypeForSignerEmail sampleConstants)
              (concat (map subject certs)) = [] then JNull
         else avalue (last (filter (\<lambda>tv. atype tv = certificateTypeForSignerEmail sampleConstants)
              (concat (map subject certs)))))"
    by (rule mp)
  with 1 show ?thesis
    by simp
qed

theorem signer_not_populated_counterexample:
  "(decodeSignature
      (sampleLibrary (sampleParser ''multipart/signed'' ''sha-256'' ''a@example.com'' ''hello'') 1
         (sampleSignedData [sampleCertificate ''a@example.com''] (Resolved (JBool True)))
         1400000000000)
      sampleConstants
      (getNode (mimeParse
         (sampleLibrary (sampleParser ''multipart/signed'' ''sha-256'' ''a@example.com'' ''hello'') 1
            (sampleSignedData [sampleCertificate ''a@example.com''] (Resolved (JBool True)))
            1400000000000) ''message'') ''2'')
      = Inr (sampleSignedData [sampleCertificate ''a@example.com''] (Resolved (JBool True)),
             JStr ''a@example.com'') \<and>
    verifyMessageSignature
      (sampleLibrary (sampleParser ''multipart/signed'' ''sha-256'' ''a@example.com'' ''hello'') 1
         (sampleSignedData [sampleCertificate ''a@example.com''] (Resolved (JBool True)))
         1400000000000)
      sampleConstants ''message'' ''id1'' =
    Inr \<lparr>mailId = ''id1'', success = False, code = FRAUD_WARNING, message = message_expired,
         signer = JStr ''''\<rparr>) \<and>
   verifyMessageSignature
     (sampleLibrary (sampleParser ''multipart/signed'' ''sha-256'' ''a@example.com'' ''hello'') 1
        (sampleSignedData [sampleCertificateWithoutEmail] (Resolved (JBool False)))
        1550000000000)
     sampleConstants ''message'' ''id1'' =
   Inr \<lparr>mailId = ''id1'', success = False, code = FRAUD_WARNING,
        message = ''Fraud warning: Message failed verification with signature.'',
        signer = JNull\<rparr> \<and>
   verifyMessageSignature
     (sampleLibrary (sampleParser ''multipart/signed'' ''sha-256'' ''a@example.com'' ''hello'') 1
        (sampleSignedData [sampleCertificateWithoutEmail] (Resolved (JBool True)))
        1550000000000)
     sampleConstants ''message'' ''id1'' =
   Inr \<lparr>mailId = ''id1'', success = False, code = FRAUD_WARNING,
        message = message_from_mismatch, signer = JNull\<rparr> \<and>
   verifyMessageSignature
     (sampleLibrary (sampleParser ''multipart/signed'' ''sha-256'' '''' ''hello'') 1
        (sampleSignedData [sampleCertificate ''''] (Resolved (JBool True)))
        1550000000000)
     sampleConstants ''message'' ''id1'' =
   Inr \<lparr>mailId = ''id1'', success = True, code = VERIFICATION_OK,
        message = ''Message includes a valid digital signature for the sender.'',
        signer = JStr ''''\<rparr>"
proof (intro conjI)
  let ?P = "sampleParser ''multipart/signed'' ''sha-256'' ''a@example.com'' ''hello''"
  let ?n1 = "samplePart ''text/plain'' ''hello''"
  let ?cms = "sampleSignedData [sampleCertificate ''a@example.com''] (Resolved (JBool True))"
  let ?L = "sampleLibrary ?P 1 ?cms 1400000000000"
  have 1: "isValidSmimeEmail sampleConstants (node (mimeParse ?L ''message''))
             (getNode (mimeParse ?L ''message'') ''2'') = Inr True"
    by (rule sample_envelope_valid)
  show 2: "decodeSignature ?L sampleConstants (getNode (mimeParse ?L ''message'') ''2'')
             = Inr (?cms, JStr ''a@example.com'')"
    by (rule sample_decoded) (rule sample_certificates)
  have 3: "isAnyCertificateExpired sampleConstants (now ?L) ?cms = Inr True"
    by (simp add: isAnyCertificateExpired_def sample_defs)
  show "verifyMessageSignature ?L sampleConstants ''message'' ''id1'' =
      Inr \<lparr>mailId = ''id1'', success = False, code = FRAUD_WARNING, message = message_expired,
           signer = JStr ''''\<rparr>"
    using verifyMessageSignature_expired [OF 1 2 3, of "''id1''"]
    by (simp add: getResultPrototype_def)
  let ?c2 = "sampleSignedData [sampleCertificateWithoutEmail] (Resolved (JBool False))"
  have "verificationReached (sampleLibrary ?P 1 ?c2 1550000000000) sampleConstants ''message''
          ?c2 JNull ?n1"
    by (rule sample_reached_without_email) (rule sample_certificates)
  then show "verifyMessageSignature (sampleLibrary ?P 1 ?c2 1550000000000) sampleConstants
      ''message'' ''id1'' =
      Inr \<lparr>mailId = ''id1'', success = False, code = FRAUD_WARNING,
        message = ''Fraud warning: Message failed verification with signature.'',
        signer = JNull\<rparr>"
    by (simp add: verifyMessageSignature_called sample_verify verificationHandlers_def
        isVerificationFailed_iff getResultPrototype_def)
  let ?c3 = "sampleSignedData [sampleCertificateWithoutEmail] (Resolved (JBool True))"
  have "verificationReached (sampleLibrary ?P 1 ?c3 1550000000000) sampleConstants ''message''
          ?c3 JNull ?n1"
    by (rule sample_reached_without_email) (rule sample_certificates)
  then show "verifyMessageSignature (sampleLibrary ?P 1 ?c3 1550000000000) sampleConstants
      ''message'' ''id1'' =
      Inr \<lparr>mailId = ''id1'', success = False, code = FRAUD_WARNING,
        message = message_from_mismatch, signer = JNull\<rparr>"
    by (simp add: verifyMessageSignature_called sample_verify verificationHandlers_def
        isVerificationFailed_iff sample_from_null getResultPrototype_def)
  let ?c4 = "sampleSignedData [sampleCertificate ''''] (Resolved (JBool True))"
  let ?L4 = "sampleLibrary (sampleParser ''multipart/signed'' ''sha-256'' '''' ''hello'') 1 ?c4
               1550000000000"
  have "verificationReached ?L4 sampleConstants ''message'' ?c4 (JStr '''') ?n1"
    by (rule sample_reached) (rule sample_certificates)
  then show "verifyMessageSignature ?L4 sampleConstants ''message'' ''id1'' =
      Inr \<lparr>mailId = ''id1'', success = True, code = VERIFICATION_OK,
        message = ''Message includes a valid digital signature for the sender.'',
        signer = JStr ''''\<rparr>"
    by (simp add: verifyMessageSignature_called sample_verify verificationHandlers_def
        isVerificationFailed_iff sample_from getResultPrototype_def)
qed

lemma nonceGenerator_sample: "nonceGenerator (\<lambda>i. 2 * i) 4 = ''ACEG''"
  by (simp add: nonceGenerator_def charAt_def upt_rec)

lemma verifyMessageSignature_ocsp_sample:
  "verifyMessageSignature_ocsp
     (sampleLibrary (sampleParser ''multipart/signed'' ''sha-256'' ''a@example.com'' ''hello'') 1
        (sampleSignedData [sampleIssuedCertificate ''a@example.com''] (Resolved (JBool True)))
        1550000000000)
     (\<lambda>cms nonce. ''request:'' @ nonce) rnd sampleConstants newSmimeVerificationService
     ''message'' ''id1'' =
   (Inr \<lparr>mailId = ''id1'', success = True, code = VERIFICATION_OK,
         message = ''Message includes a valid digital signature for the sender.'',
         signer = JStr ''a@example.com''\<rparr>,
    \<lparr>ocspReqBuffer = ''request:'' @ nonceGenerator rnd 32\<rparr>)"
proof -
  let ?cms = "sampleSignedData [sampleIssuedCertificate ''a@example.com''] (Resolved (JBool True))"
  let ?L = "sampleLibrary (sampleParser ''multipart/signed'' ''sha-256'' ''a@example.com'' ''hello'')
              1 ?cms 1550000000000"
  have 1: "isValidSmimeEmail sampleConstants (node (mimeParse ?L ''message''))
             (getNode (mimeParse ?L ''message'') ''2'') = Inr True"
    by (rule sample_envelope_valid)
  have 2: "buildRequestAndDecode ?L (\<lambda>cms nonce. ''request:'' @ nonce) rnd
             newSmimeVerificationService (getNode (mimeParse ?L ''message'') ''2'')
           = (Inr (?cms, JStr ''a@example.com''),
              \<lparr>ocspReqBuffer = ''request:'' @ nonceGenerator rnd 32\<rparr>)"
    by (simp add: buildRequestAndDecode_def getAsn1TypeFromBuffer_def getSignedDataFromAsn1_def
        getNode_def sampleLibrary_def sampleParser_def sampleSignedData_def
        sampleIssuedCertificate_def newSmimeVerificationService_def)
  have 3: "nodes (mimeParse ?L ''message'') ''node1'' = Some (samplePart ''text/plain'' ''hello'')"
    by (simp add: sample_defs)
  show ?thesis
    unfolding verifyMessageSignature_ocsp_def Let_def 1 2 3
    by (simp add: sample_verify verificationHandlers_def isVerificationFailed_iff sample_from
        getResultPrototype_def)
qed

lemma buildRequestAndDecode_result:
  "fst (buildRequestAndDecode L encodeRequest rnd this signatureNode) =
   fst (buildRequestAndDecode L encodeRequest rnd' this' signatureNode)"
  by (simp add: buildRequestAndDecode_def Let_def split: option.splits sum.splits list.splits)

lemma verifyMessageSignature_ocsp_result:
  "fst (verifyMessageSignature_ocsp L encodeRequest rnd C this rawMessage mid) =
   fst (verifyMessageSignature_ocsp L encodeRequest rnd' C this' rawMessage mid)"
proof -
  let ?sn = "getNode (mimeParse L rawMessage) ''2''"
  obtain d t where 1: "buildRequestAndDecode L encodeRequest rnd this ?sn = (d, t)"
    by (cases "buildRequestAndDecode L encodeRequest rnd this ?sn")
  obtain d' t' where 2: "buildRequestAndDecode L encodeRequest rnd' this' ?sn = (d', t')"
    by (cases "buildRequestAndDecode L encodeRequest rnd' this' ?sn")
  have "d = d'"
    using buildRequestAndDecode_result [of L encodeRequest rnd this ?sn rnd' this'] 1 2 by simp
  then show ?thesis
    by (simp add: verifyMessageSignature_ocsp_def Let_def 1 2
        split: sum.splits bool.splits option.splits prod.splits)
qed

text \<open>
  Claim C9. The first revision of the service has no field and its model has no state: the
  result is a function of the message, the mail id, the clock and the library calls. The
  second revision writes the field \<open>ocspReqBuffer\<close> and draws a random nonce in every call.
  Its result depends on neither: two calls on the same message and mail id return the same
  result whatever the state of the service and the random draws, in particular when the
  second call starts in the state that the first one left.
\<close>

theorem verification_result_independent_of_service_state:
  "fst (verifyMessageSignature_ocsp L encodeRequest rnd C this rawMessage mid) =
   fst (verifyMessageSignature_ocsp L encodeRequest rnd' C this' rawMessage mid) \<and>
   fst (verifyMessageSignature_ocsp L encodeRequest rnd' C
          (snd (verifyMessageSignature_ocsp L encodeRequest rnd C this rawMessage mid))
          rawMessage mid) =
   fst (verifyMessageSignature_ocsp L encodeRequest rnd C this rawMessage mid)"
  using verifyMessageSignature_ocsp_result by blast

end
